theory Spec2Isabelle
  imports Main
begin

section \<open>Python string primitives used by main.py\<close>

text \<open>
  A Python \<open>str\<close> is modelled as a \<open>string\<close>; each \<open>char\<close> stands for one code point in
  the range U+0000 .. U+00FF (the decoded script, not its UTF-8 bytes). The white-space
  and line-break characters of that range are listed as CPython classifies them.
\<close>

definition isspace :: "char \<Rightarrow> bool" where
  \<comment> \<open>\<open>str.isspace\<close> on one character; the class used by \<open>str.strip()\<close> and by \<open>\s\<close>\<close>
  "isspace c \<longleftrightarrow> c \<in> set [CHR 0x09, CHR 0x0A, CHR 0x0B, CHR 0x0C, CHR 0x0D,
       CHR 0x1C, CHR 0x1D, CHR 0x1E, CHR 0x1F, CHR 0x20, CHR 0x85, CHR 0xA0]"

definition is_linebreak :: "char \<Rightarrow> bool" where
  \<comment> \<open>the line boundaries of \<open>str.splitlines()\<close>\<close>
  "is_linebreak c \<longleftrightarrow> c \<in> set [CHR 0x0A, CHR 0x0B, CHR 0x0C, CHR 0x0D,
       CHR 0x1C, CHR 0x1D, CHR 0x1E, CHR 0x85]"

definition strip :: "string \<Rightarrow> string" where
  \<comment> \<open>\<open>s.strip()\<close>\<close>
  "strip s = rev (dropWhile isspace (rev (dropWhile isspace s)))"

fun splitlines_from :: "string \<Rightarrow> string \<Rightarrow> string list" where
  \<comment> \<open>first argument: the characters of the current line read so far\<close>
  "splitlines_from cur [] = (if cur = [] then [] else [cur])"
| "splitlines_from cur (c # cs) =
     (if c = CHR 0x0D then
        (case cs of
           [] \<Rightarrow> [cur]
         | d # ds \<Rightarrow>
             if d = CHR 0x0A then cur # splitlines_from [] ds
             else cur # splitlines_from [] cs)
      else if is_linebreak c then cur # splitlines_from [] cs
      else splitlines_from (cur @ [c]) cs)"

definition splitlines :: "string \<Rightarrow> string list" where
  \<comment> \<open>\<open>s.splitlines()\<close>: no line for the empty rest after a final line break\<close>
  "splitlines s = splitlines_from [] s"

definition split_colon :: "string \<Rightarrow> string list" where
  \<comment> \<open>\<open>line.split(':', 1)\<close>\<close>
  "split_colon line =
     (case dropWhile (\<lambda>c. c \<noteq> CHR '':'') line of
        [] \<Rightarrow> [line]
      | _ # after \<Rightarrow> [takeWhile (\<lambda>c. c \<noteq> CHR '':'') line, after])"

fun find_close :: "string \<Rightarrow> string option" where
  \<comment> \<open>the lazy \<open>.*?\]\<close>: the text after the nearest \<open>]\<close>, unless a newline (which \<open>.\<close>
      does not match) or the end of the text comes first\<close>
  "find_close [] = None"
| "find_close (c # cs) =
     (if c = CHR '']'' then Some cs
      else if c = CHR 0x0A then None
      else find_close cs)"

function sub_brackets :: "string \<Rightarrow> string" where
  \<comment> \<open>\<open>re.sub(r'\[.*?\]', '', s)\<close>: leftmost matches, scanning resumes after each match\<close>
  "sub_brackets [] = []"
| "sub_brackets (c # cs) =
     (if c = CHR ''['' then
        (case find_close cs of
           Some rest \<Rightarrow> sub_brackets rest
         | None \<Rightarrow> c # sub_brackets cs)
      else c # sub_brackets cs)"
  by pat_completeness auto
termination
proof (relation "measure length")
  have shorter: "find_close cs = Some rest \<Longrightarrow> length rest < Suc (length cs)" for cs rest
    by (induction cs) (auto split: if_splits)
  show "wf (measure length)" by simp
  show "(rest, c # cs) \<in> measure length"
    if "c = CHR ''[''" and "find_close cs = Some rest" for c cs rest
    using shorter[OF that(2)] by simp
qed auto

function sub_spaces :: "string \<Rightarrow> string" where
  \<comment> \<open>\<open>re.sub(r'\s+', ' ', s)\<close>: every maximal run of white space becomes one space\<close>
  "sub_spaces [] = []"
| "sub_spaces (c # cs) =
     (if isspace c then CHR '' '' # sub_spaces (dropWhile isspace cs)
      else c # sub_spaces cs)"
  by pat_completeness auto
termination
  by (relation "measure length") (auto simp: less_Suc_eq_le length_dropWhile_le)

definition clean :: "string \<Rightarrow> string" where
  \<comment> \<open>lines 89-90: \<open>cleaned_dialogue\<close> computed from \<open>original_dialogue\<close>\<close>
  "clean original_dialogue = sub_spaces (strip (sub_brackets original_dialogue))"

fun str_nat :: "nat \<Rightarrow> string" where
  \<comment> \<open>\<open>str(n)\<close>, also \<open>f"{n}"\<close>, for a non-negative integer\<close>
  "str_nat n =
     (if n < 10 then [''0123456789'' ! n]
      else str_nat (n div 10) @ [''0123456789'' ! (n mod 10)])"

declare str_nat.simps [simp del]

definition fmt03d :: "nat \<Rightarrow> string" where
  \<comment> \<open>\<open>f"{n:03d}"\<close>: padded with zeros on the left to at least three characters\<close>
  "fmt03d n = replicate (3 - length (str_nat n)) CHR ''0'' @ str_nat n"

definition str_lower :: "string \<Rightarrow> string" where
  \<comment> \<open>\<open>s.lower()\<close> on the modelled range: A-Z and the capital letters U+00C0 .. U+00DE
      (without the multiplication sign U+00D7) move up by 32\<close>
  "str_lower s =
     map (\<lambda>c. let n = (of_char c :: nat) in
            if (65 \<le> n \<and> n \<le> 90) \<or> (192 \<le> n \<and> n \<le> 222 \<and> n \<noteq> 215)
            then char_of (n + 32) else c) s"

definition endswith :: "string \<Rightarrow> string \<Rightarrow> bool" where
  \<comment> \<open>\<open>s.endswith(suffix)\<close>\<close>
  "endswith s suffix \<longleftrightarrow>
     length suffix \<le> length s \<and> drop (length s - length suffix) s = suffix"

definition path_join :: "string \<Rightarrow> string \<Rightarrow> string" where
  \<comment> \<open>\<open>os.path.join(a, b)\<close> (POSIX) for two components\<close>
  "path_join a b =
     (if b \<noteq> [] \<and> hd b = CHR ''/'' then b
      else if a = [] \<or> last a = CHR ''/'' then a @ b
      else a @ ''/'' @ b)"

definition join_br :: "string list \<Rightarrow> string" where
  \<comment> \<open>\<open>"<br>".join(xs)\<close>\<close>
  "join_br xs = (case xs of [] \<Rightarrow> [] | x # rest \<Rightarrow> x @ concat (map (\<lambda>y. ''<br>'' @ y) rest))"

section \<open>Configuration and the outside world\<close>

definition CHARACTER_VOICES :: "string \<rightharpoonup> string" where
  "CHARACTER_VOICES = map_of
     [(''Krishna'', ''text-to-speech-en-in-standard-c''),
      (''Radha'', ''text-to-speech-en-in-wavenet-d''),
      (''Ganesha'', ''text-to-speech-en-us-wavenet-e''),
      (''Narrator'', ''text-to-speech-en-us-wavenet-f''),
      (''Friend1'', ''text-to-speech-en-us-standard-c''),
      (''Friend2'', ''text-to-speech-en-au-wavenet-b'')]"

text \<open>
  The process environment and the behaviour of the external services during one run.
  A service call that raises an \<open>Exception\<close> answers \<open>Some e\<close>, with \<open>e\<close> the text of the
  exception (\<open>str(e)\<close>); \<open>None\<close> is a call that returns normally.
  \<^item> \<open>vertexai_init project location\<close> is \<open>vertexai.init(...)\<close>;
  \<^item> \<open>provider i voice text filename\<close> is the body of the \<open>try\<close> block of
    \<open>generate_audio_for_line\<close> (load the voice, predict, write the audio file) when it is
    run for the line of index \<open>i\<close> of the script.
\<close>

record environment =
  K_SERVICE :: "string option"
  GCP_PROJECT_ID :: "string option"
  GCP_LOCATION :: "string option"
  vertexai_init :: "string \<Rightarrow> string \<Rightarrow> string option"
  provider :: "nat \<Rightarrow> string \<Rightarrow> string \<Rightarrow> string \<Rightarrow> string option"

definition OUTPUT_DIR :: "environment \<Rightarrow> string" where
  "OUTPUT_DIR env =
     (case K_SERVICE env of
        None \<Rightarrow> ''voice_overs''
      | Some v \<Rightarrow> if v = [] then ''voice_overs'' else ''/tmp/voice_overs'')"

text \<open>The uploaded file: its name, and what \<open>read().decode('utf-8')\<close> gives
  (\<open>Inl e\<close> when it raises).\<close>

record upload =
  name :: string
  read_decode :: "string + string"

section \<open>Core functions\<close>

definition initialize_vertex_ai :: "environment \<Rightarrow> string + unit" where
  \<comment> \<open>\<open>Inl\<close>: the message of the \<open>ValueError\<close> or \<open>RuntimeError\<close> raised\<close>
  "initialize_vertex_ai env =
     (let project_id = GCP_PROJECT_ID env;
          location = (case GCP_LOCATION env of None \<Rightarrow> ''us-central1'' | Some l \<Rightarrow> l)
      in case project_id of
           None \<Rightarrow> Inl ''Configuration Error: GCP_PROJECT_ID environment variable is not set. Please set it in the Cloud Run deployment settings.''
         | Some p \<Rightarrow>
             if p = [] then Inl ''Configuration Error: GCP_PROJECT_ID environment variable is not set. Please set it in the Cloud Run deployment settings.''
             else (case vertexai_init env p location of
                     Some e \<Rightarrow> Inl (''Vertex AI Init Failed. Check Service Account permissions. Original error: '' @ e)
                   | None \<Rightarrow> Inr ()))"

text \<open>
  \<open>generate_audio_for_line\<close> returns the pair \<open>(success, message)\<close> of the source and,
  beside it, the provider invocations it made: the arguments \<open>(voice, text, filename)\<close>
  of the \<open>try\<close> block when that block was entered, nothing otherwise.
\<close>

definition generate_audio_for_line ::
  "(string \<Rightarrow> string \<Rightarrow> string \<Rightarrow> string option) \<Rightarrow> string \<Rightarrow> string \<Rightarrow> string \<Rightarrow> string
     \<Rightarrow> (bool \<times> string) \<times> (string \<times> string \<times> string) list" where
  "generate_audio_for_line call character_name voice_model_name dialogue_text output_filename =
     (if dialogue_text = [] then
        ((False, ''No dialogue text remaining after removing brackets.''), [])
      else
        (case call voice_model_name dialogue_text output_filename of
           None \<Rightarrow> ((True, []), [(voice_model_name, dialogue_text, output_filename)])
         | Some e \<Rightarrow>
             ((False, ''API Error for '' @ [CHR 0x27] @ character_name @ [CHR 0x27] @ '': '' @ e),
              [(voice_model_name, dialogue_text, output_filename)])))"

text \<open>
  The local variables of the line loop of \<open>generate_voice_over\<close>, with two records of
  its effects: \<open>provider_calls\<close>, every provider invocation in order, and \<open>artifacts\<close>,
  the file names of the audio files written by successful calls, in order.
\<close>

record batch =
  output_html :: string
  error_summary :: "string list"
  audio_files_generated_count :: nat
  line_processed_count :: nat
  provider_calls :: "(string \<times> string \<times> string) list"
  artifacts :: "string list"

definition batch0 :: batch where
  "batch0 = \<lparr>output_html = [], error_summary = [], audio_files_generated_count = 0,
             line_processed_count = 0, provider_calls = [], artifacts = []\<rparr>"

definition falsy :: "string option \<Rightarrow> bool" where
  \<comment> \<open>\<open>not x\<close> for the result of \<open>dict.get\<close>: \<open>None\<close> or the empty string\<close>
  "falsy x \<longleftrightarrow> x = None \<or> x = Some []"

definition synthesize_line ::
  "environment \<Rightarrow> nat \<Rightarrow> string \<Rightarrow> string \<Rightarrow> string \<Rightarrow> batch \<Rightarrow> batch" where
  \<comment> \<open>lines 91-102 of the loop body, for the line of index \<open>i\<close> that passed the format
      check; \<open>st\<close> already counts this line\<close>
  "synthesize_line env i character_name original_dialogue cleaned_dialogue st =
     (let voice_model_name = CHARACTER_VOICES character_name in
      if falsy voice_model_name then
        st\<lparr>error_summary := error_summary st @
             [''Line '' @ str_nat (i + 1) @ '': Character '' @ [CHR 0x27] @ character_name
                @ [CHR 0x27] @ '' not configured.'']\<rparr>
      else
        let filename = path_join (OUTPUT_DIR env)
              (fmt03d (line_processed_count st) @ ''_'' @ character_name @ ''.mp3'')
        in
        (case generate_audio_for_line (provider env i) character_name (the voice_model_name)
                cleaned_dialogue filename of
           ((success, error_message), calls) \<Rightarrow>
             let st = st\<lparr>provider_calls := provider_calls st @ calls\<rparr> in
             if success then
               st\<lparr>audio_files_generated_count := audio_files_generated_count st + 1,
                  output_html := output_html st @
                    ''<p><strong>'' @ character_name @ '':</strong> '' @ original_dialogue
                    @ ''</p><audio controls src='' @ [CHR 0x27] @ ''file='' @ filename
                    @ [CHR 0x27] @ ''></audio><br><br>'',
                  artifacts := artifacts st @ [filename]\<rparr>
             else
               st\<lparr>error_summary := error_summary st @
                    [''Line '' @ str_nat (i + 1) @ '' ('' @ character_name @ ''): ''
                       @ error_message]\<rparr>))"

definition process_line :: "environment \<Rightarrow> nat \<Rightarrow> string \<Rightarrow> batch \<Rightarrow> batch" where
  \<comment> \<open>the body of the \<open>for\<close> loop for the line of index \<open>i\<close>: lines 81-90, then
      \<open>synthesize_line\<close>\<close>
  "process_line env i raw st0 =
     (let line = strip raw in
      if line = [] then st0
      else
        let st = st0\<lparr>line_processed_count := line_processed_count st0 + 1\<rparr>;
            parts = split_colon line
        in
        if length parts < 2 \<or> strip (parts ! 0) = [] \<or> strip (parts ! 1) = [] then
          st\<lparr>error_summary := error_summary st @
               [''Line '' @ str_nat (i + 1) @ '' (Format Error): '' @ [CHR 0x27] @ line
                  @ [CHR 0x27]]\<rparr>
        else
          let character_name = strip (parts ! 0);
              original_dialogue = strip (parts ! 1);
              cleaned_dialogue = clean original_dialogue
          in synthesize_line env i character_name original_dialogue cleaned_dialogue st)"

fun process_lines :: "environment \<Rightarrow> nat \<Rightarrow> string list \<Rightarrow> batch \<Rightarrow> batch" where
  \<comment> \<open>\<open>for i, line in enumerate(...)\<close>, from index \<open>i\<close> on\<close>
  "process_lines env i [] st = st"
| "process_lines env i (line # rest) st =
     process_lines env (Suc i) rest (process_line env i line st)"

definition report :: "batch \<Rightarrow> string \<times> string \<times> bool" where
  \<comment> \<open>lines 104-107; the third component is the visibility of the clear button\<close>
  "report st =
     (let status_message =
            ''Processed '' @ str_nat (line_processed_count st) @ '' lines. Generated ''
              @ str_nat (audio_files_generated_count st) @ '' files.'';
          status_message =
            (if error_summary st \<noteq> []
             then status_message @ ''<br><br><strong>Errors:</strong><br>''
                    @ join_br (error_summary st)
             else status_message);
          html = (if output_html st = [] then ''No audio generated. Check status for errors.''
                  else output_html st)
      in (status_message, html, audio_files_generated_count st > 0))"

text \<open>
  \<open>generate_voice_over\<close> returns what the source returns (status message, result HTML,
  visibility of the clear button) and the final state of the line loop; on a return
  before the loop that state is \<open>batch0\<close>: nothing counted, called or written.
\<close>

definition generate_voice_over ::
  "environment \<Rightarrow> upload option \<Rightarrow> (string \<times> string \<times> bool) \<times> batch" where
  "generate_voice_over env script_file_obj =
     (case script_file_obj of
        None \<Rightarrow> ((''Please upload a script file.'', [], False), batch0)
      | Some f \<Rightarrow>
          if \<not> endswith (str_lower (name f)) ''.txt'' then
            ((''Invalid File Type: Please upload a .txt file.'', [], False), batch0)
          else
            (case initialize_vertex_ai env of
               Inl e \<Rightarrow> ((e, [], False), batch0)
             | Inr _ \<Rightarrow>
                 (case read_decode f of
                    Inl e \<Rightarrow> ((''Error reading script file: '' @ e, [], False), batch0)
                  | Inr script_content \<Rightarrow>
                      let st = process_lines env 0 (splitlines script_content) batch0
                      in (report st, st))))"

section \<open>Clearing the output directory\<close>

text \<open>
  The output directory as \<open>clear_generated_files\<close> sees it: \<open>listing\<close> is \<open>None\<close> when
  the directory does not exist and the result of \<open>os.listdir\<close> otherwise; \<open>remove p\<close> is
  \<open>os.remove(p)\<close>, \<open>Some e\<close> when it raises. The sweep records the paths it tried to
  remove and the lines it printed.
\<close>

record directory =
  listing :: "string list option"
  remove :: "string \<Rightarrow> string option"

record sweep =
  deleted_count :: nat
  attempted :: "string list"
  printed :: "string list"

fun remove_all :: "string \<Rightarrow> (string \<Rightarrow> string option) \<Rightarrow> string list \<Rightarrow> sweep \<Rightarrow> sweep" where
  \<comment> \<open>the \<open>for\<close> loop of lines 113-115\<close>
  "remove_all dir rm [] sw = sw"
| "remove_all dir rm (filename # rest) sw =
     (let p = path_join dir filename;
          sw = sw\<lparr>attempted := attempted sw @ [p]\<rparr>
      in remove_all dir rm rest
           (case rm p of
              None \<Rightarrow> sw\<lparr>deleted_count := deleted_count sw + 1\<rparr>
            | Some e \<Rightarrow> sw\<lparr>printed := printed sw @
                          [''Error deleting file '' @ filename @ '': '' @ e]\<rparr>))"

definition clear_generated_files ::
  "environment \<Rightarrow> directory \<Rightarrow> (string \<times> string \<times> bool) \<times> sweep" where
  "clear_generated_files env d =
     (let sw = \<lparr>deleted_count = 0, attempted = [], printed = []\<rparr> in
      case listing d of
        None \<Rightarrow> ((''Directory does not exist.'', [], False), sw)
      | Some files \<Rightarrow>
          let sw = remove_all (OUTPUT_DIR env) (remove d) files sw
          in ((''Cleared '' @ str_nat (deleted_count sw) @ '' files.'', [], False), sw))"

section \<open>Notions of the specification\<close>

text \<open>
  The reference definition of cleaning, following the specification's words: remove every
  span from a \<open>[\<close> to the nearest following \<open>]\<close>, then collapse every run of white space
  into one space, then trim.
\<close>

fun after_close :: "string \<Rightarrow> string option" where
  \<comment> \<open>the text after the nearest \<open>]\<close>, if there is one\<close>
  "after_close [] = None"
| "after_close (c # cs) = (if c = CHR '']'' then Some cs else after_close cs)"

function remove_spans :: "string \<Rightarrow> string" where
  "remove_spans [] = []"
| "remove_spans (c # cs) =
     (if c = CHR ''['' then
        (case after_close cs of
           Some rest \<Rightarrow> remove_spans rest
         | None \<Rightarrow> c # remove_spans cs)
      else c # remove_spans cs)"
  by pat_completeness auto
termination
proof (relation "measure length")
  have shorter: "after_close cs = Some rest \<Longrightarrow> length rest < Suc (length cs)" for cs rest
    by (induction cs) (auto split: if_splits)
  show "wf (measure length)" by simp
  show "(rest, c # cs) \<in> measure length"
    if "c = CHR ''[''" and "after_close cs = Some rest" for c cs rest
    using shorter[OF that(2)] by simp
qed auto

definition clean_reference :: "string \<Rightarrow> string" where
  "clean_reference s = strip (sub_spaces (remove_spans s))"

text \<open>Lines of a script: blank or not, and, for the trimmed line, the segments before and
  after its first colon.\<close>

definition nonblank :: "string \<Rightarrow> bool" where
  "nonblank raw \<longleftrightarrow> strip raw \<noteq> []"

definition name_segment :: "string \<Rightarrow> string" where
  "name_segment raw = takeWhile (\<lambda>c. c \<noteq> CHR '':'') (strip raw)"

definition dialogue_segment :: "string \<Rightarrow> string" where
  "dialogue_segment raw = drop 1 (dropWhile (\<lambda>c. c \<noteq> CHR '':'') (strip raw))"

definition character_of :: "string \<Rightarrow> string" where
  "character_of raw = strip (name_segment raw)"

definition dialogue_of :: "string \<Rightarrow> string" where
  "dialogue_of raw = strip (dialogue_segment raw)"

definition well_formed :: "string \<Rightarrow> bool" where
  \<comment> \<open>\<open>Name: Text\<close> with both sides non-empty after trimming\<close>
  "well_formed raw \<longleftrightarrow>
     CHR '':'' \<in> set (strip raw) \<and> character_of raw \<noteq> [] \<and> dialogue_of raw \<noteq> []"

definition artifact_name :: "nat \<Rightarrow> string \<Rightarrow> string" where
  \<comment> \<open>the file name \<open>{index:03d}_{CharacterName}.mp3\<close> of an audio artifact\<close>
  "artifact_name n c = fmt03d n @ ''_'' @ c @ ''.mp3''"

definition synthesizes :: "environment \<Rightarrow> nat \<Rightarrow> nat \<Rightarrow> string \<Rightarrow> bool" where
  \<comment> \<open>the line, at index \<open>i\<close> and as the \<open>n\<close>-th processed line, is well formed, its character
      is configured, its cleaned dialogue is not empty and the provider call for it succeeds\<close>
  "synthesizes env i n raw \<longleftrightarrow>
     well_formed raw \<and>
     (case CHARACTER_VOICES (character_of raw) of
        None \<Rightarrow> False
      | Some v \<Rightarrow>
          clean (dialogue_of raw) \<noteq> [] \<and>
          provider env i v (clean (dialogue_of raw))
            (OUTPUT_DIR env @ ''/'' @ artifact_name n (character_of raw)) = None)"

text \<open>Every processed line has one outcome: the counts of a batch add up.\<close>

definition balanced :: "batch \<Rightarrow> bool" where
  "balanced st \<longleftrightarrow>
     audio_files_generated_count st + length (error_summary st) = line_processed_count st
     \<and> length (artifacts st) = audio_files_generated_count st"

text \<open>Auxiliary notions for the proofs: trimming on the right only, and texts in which no
  \<open>[\<close> is followed by a \<open>]\<close>.\<close>

definition rstrip :: "string \<Rightarrow> string" where
  "rstrip s = rev (dropWhile isspace (rev s))"

fun open_tail :: "string \<Rightarrow> bool" where
  "open_tail [] = True"
| "open_tail (c # cs) = ((c = CHR ''['' \<longrightarrow> CHR '']'' \<notin> set cs) \<and> open_tail cs)"

text \<open>An environment for examples: a local run whose services never fail.\<close>

definition flaky_env :: environment where
  \<comment> \<open>as \<open>demo_env\<close> below, but the provider fails on the first line of the script\<close>
  "flaky_env = \<lparr>K_SERVICE = None, GCP_PROJECT_ID = Some ''demo'', GCP_LOCATION = None,
                 vertexai_init = (\<lambda>_ _. None),
                 provider = (\<lambda>i _ _ _. if i = 0 then Some ''quota exceeded'' else None)\<rparr>"

definition demo_env :: environment where
  "demo_env = \<lparr>K_SERVICE = None, GCP_PROJECT_ID = Some ''demo'', GCP_LOCATION = None,
                vertexai_init = (\<lambda>_ _. None), provider = (\<lambda>_ _ _ _. None)\<rparr>"

section \<open>Cleaning: white space and bracketed notes\<close>

lemma strip_rstrip: "strip s = rstrip (dropWhile isspace s)"
  by (simp add: strip_def rstrip_def)

lemma rstrip_Nil [simp]: "rstrip [] = []"
  by (simp add: rstrip_def)

lemma rstrip_Cons:
  "rstrip (c # cs) = (if \<forall>x\<in>set (c # cs). isspace x then [] else c # rstrip cs)"
  by (auto simp: rstrip_def dropWhile_append)

lemma rstrip_all_space: "\<forall>x\<in>set s. isspace x \<Longrightarrow> rstrip s = []"
  by (simp add: rstrip_def)

lemma dropWhile_rstrip: "dropWhile isspace (rstrip s) = rstrip (dropWhile isspace s)"
proof (induction s)
  case Nil
  then show ?case by simp
next
  case (Cons c cs)
  show ?case
  proof (cases "\<forall>x\<in>set (c # cs). isspace x")
    case True
    then have a: "rstrip (c # cs) = []" and b: "dropWhile isspace (c # cs) = []"
      by (simp_all add: rstrip_Cons)
    show ?thesis unfolding a b by simp
  next
    case False
    then show ?thesis using Cons by (auto simp: rstrip_Cons)
  qed
qed

lemma find_close_after_close: "CHR 0x0A \<notin> set s \<Longrightarrow> find_close s = after_close s"
  by (induction s) auto

lemma after_close_set: "after_close s = Some r \<Longrightarrow> set r \<subseteq> set s"
  by (induction s) (auto split: if_splits)

lemma sub_brackets_remove_spans: "CHR 0x0A \<notin> set s \<Longrightarrow> sub_brackets s = remove_spans s"
proof (induction s rule: sub_brackets.induct)
  case 1
  then show ?case by simp
next
  case (2 c cs)
  then have nl: "CHR 0x0A \<notin> set cs" by simp
  show ?case
  proof (cases "c = CHR ''[''")
    case True
    show ?thesis
    proof (cases "find_close cs")
      case None
      with True 2 nl show ?thesis by (simp add: find_close_after_close[symmetric])
    next
      case (Some rest)
      then have "after_close cs = Some rest" using nl by (simp add: find_close_after_close)
      moreover from this have "CHR 0x0A \<notin> set rest" using after_close_set nl by blast
      ultimately show ?thesis using True Some 2 by simp
    qed
  next
    case False
    with 2 nl show ?thesis by simp
  qed
qed

lemma sub_spaces_head: "s = [] \<or> \<not> isspace (hd s) \<Longrightarrow> dropWhile isspace (sub_spaces s) = sub_spaces s"
  by (cases s) auto

lemma dropWhile_head: "dropWhile P s = [] \<or> \<not> P (hd (dropWhile P s))"
  using hd_dropWhile by blast

lemma sub_spaces_lstrip: "sub_spaces (dropWhile isspace s) = dropWhile isspace (sub_spaces s)"
proof (cases s)
  case Nil
  then show ?thesis by simp
next
  case (Cons c cs)
  show ?thesis
  proof (cases "isspace c")
    case True
    have "CHR '' '' = CHR 0x20" by simp
    then have sp: "isspace CHR '' ''" by (simp add: isspace_def)
    show ?thesis using True Cons sp
      by (simp add: sub_spaces_head[OF dropWhile_head])
  next
    case False
    then show ?thesis using Cons by simp
  qed
qed

lemma sub_spaces_nonspace: "\<not> (\<forall>x\<in>set s. isspace x) \<Longrightarrow> \<not> (\<forall>x\<in>set (sub_spaces s). isspace x)"
proof (induction s rule: sub_spaces.induct)
  case 1
  then show ?case by simp
next
  case (2 c cs)
  show ?case
  proof (cases "isspace c")
    case True
    with 2 have "\<not> (\<forall>x\<in>set cs. isspace x)" by auto
    then have "\<not> (\<forall>x\<in>set (dropWhile isspace cs). isspace x)"
      by (metis dropWhile_eq_Nil_conv hd_dropWhile hd_in_set)
    with 2 True show ?thesis by auto
  next
    case False
    then show ?thesis by auto
  qed
qed

lemma sub_spaces_rstrip: "sub_spaces (rstrip s) = rstrip (sub_spaces s)"
proof (induction s rule: sub_spaces.induct)
  case 1
  then show ?case by simp
next
  case (2 c cs)
  have sp: "isspace CHR '' ''" by (simp add: isspace_def)
  show ?case
  proof (cases "isspace c")
    case False
    with 2 show ?thesis by (auto simp: rstrip_Cons)
  next
    case True
    show ?thesis
    proof (cases "\<forall>x\<in>set cs. isspace x")
      case all: True
      then have dw: "dropWhile isspace cs = []" by simp
      from True all sp show ?thesis by (simp add: rstrip_Cons dw)
    next
      case some: False
      then have "\<not> (\<forall>x\<in>set (dropWhile isspace cs). isspace x)"
        by (metis dropWhile_eq_Nil_conv hd_dropWhile hd_in_set)
      then have ns: "\<not> (\<forall>x\<in>set (sub_spaces (dropWhile isspace cs)). isspace x)"
        by (rule sub_spaces_nonspace)
      have "sub_spaces (rstrip (c # cs)) = sub_spaces (c # rstrip cs)"
        using some by (auto simp: rstrip_Cons)
      also have "\<dots> = CHR '' '' # sub_spaces (dropWhile isspace (rstrip cs))"
        using True by simp
      also have "\<dots> = CHR '' '' # rstrip (sub_spaces (dropWhile isspace cs))"
        using 2(1)[OF True] by (simp add: dropWhile_rstrip)
      also have "\<dots> = rstrip (sub_spaces (c # cs))"
        using True ns by (simp add: rstrip_Cons)
      finally show ?thesis .
    qed
  qed
qed

lemma sub_spaces_strip: "sub_spaces (strip s) = strip (sub_spaces s)"
  by (simp add: strip_rstrip sub_spaces_rstrip sub_spaces_lstrip)

lemma clean_refines: "CHR 0x0A \<notin> set d \<Longrightarrow> clean d = clean_reference d"
  by (simp add: clean_def clean_reference_def sub_brackets_remove_spans sub_spaces_strip)

lemma close_absent: "CHR '']'' \<notin> set s \<Longrightarrow> find_close s = None"
  by (induction s) auto

lemma find_close_None: "CHR 0x0A \<notin> set s \<Longrightarrow> find_close s = None \<Longrightarrow> CHR '']'' \<notin> set s"
  by (induction s) (auto split: if_splits)

lemma find_close_set: "find_close s = Some r \<Longrightarrow> set r \<subseteq> set s"
  by (induction s) (auto split: if_splits)

lemma set_sub_brackets: "set (sub_brackets s) \<subseteq> set s"
proof (induction s rule: sub_brackets.induct)
  case 1
  then show ?case by simp
next
  case (2 c cs)
  show ?case
  proof (cases "c = CHR ''[''")
    case False
    with 2 show ?thesis by auto
  next
    case True
    show ?thesis
    proof (cases "find_close cs")
      case None
      with True 2 show ?thesis by auto
    next
      case (Some rest)
      from 2 True Some have "set (sub_brackets rest) \<subseteq> set rest" by simp
      then have "set (sub_brackets rest) \<subseteq> set cs"
        using find_close_set[OF Some] by blast
      with True Some show ?thesis by auto
    qed
  qed
qed

lemma set_sub_spaces: "set (sub_spaces s) \<subseteq> insert CHR '' '' (set s)"
proof (induction s rule: sub_spaces.induct)
  case 1
  then show ?case by simp
next
  case (2 c cs)
  then show ?case by (auto dest: set_dropWhileD)
qed

lemma set_rstrip: "set (rstrip s) \<subseteq> set s"
  by (auto simp: rstrip_def dest: set_dropWhileD)

lemma set_strip: "set (strip s) \<subseteq> set s"
  by (auto simp: strip_def dest!: set_dropWhileD)

lemma sub_brackets_fixed: "open_tail t \<Longrightarrow> sub_brackets t = t"
  by (induction t) (auto simp: close_absent)

lemma open_tail_sub_brackets: "CHR 0x0A \<notin> set s \<Longrightarrow> open_tail (sub_brackets s)"
proof (induction s rule: sub_brackets.induct)
  case 1
  then show ?case by simp
next
  case (2 c cs)
  then have nl: "CHR 0x0A \<notin> set cs" by simp
  show ?case
  proof (cases "find_close cs")
    case None
    then have "CHR '']'' \<notin> set (sub_brackets cs)"
      using find_close_None[OF nl] set_sub_brackets by blast
    with None 2 nl show ?thesis by simp
  next
    case (Some rest)
    then have "CHR 0x0A \<notin> set rest" using find_close_set nl by blast
    with Some 2 nl show ?thesis by simp
  qed
qed

lemma open_tail_dropWhile: "open_tail s \<Longrightarrow> open_tail (dropWhile P s)"
  by (induction s) auto

lemma open_tail_rstrip: "open_tail s \<Longrightarrow> open_tail (rstrip s)"
proof (induction s)
  case Nil
  then show ?case by simp
next
  case (Cons c cs)
  then show ?case using set_rstrip[of cs] by (auto simp: rstrip_Cons)
qed

lemma open_tail_sub_spaces: "open_tail s \<Longrightarrow> open_tail (sub_spaces s)"
proof (induction s rule: sub_spaces.induct)
  case 1
  then show ?case by simp
next
  case (2 c cs)
  show ?case
  proof (cases "isspace c")
    case True
    with 2 show ?thesis by (simp add: open_tail_dropWhile)
  next
    case False
    have "CHR '']'' \<notin> set cs \<Longrightarrow> CHR '']'' \<notin> set (sub_spaces cs)"
      using set_sub_spaces[of cs] by auto
    with False 2 show ?thesis by auto
  qed
qed

lemma sub_spaces_idem: "sub_spaces (sub_spaces s) = sub_spaces s"
proof (induction s rule: sub_spaces.induct)
  case 1
  then show ?case by simp
next
  case (2 c cs)
  have sp: "isspace CHR '' ''" by (simp add: isspace_def)
  show ?case
  proof (cases "isspace c")
    case True
    with 2 sp show ?thesis by (simp add: sub_spaces_head[OF dropWhile_head])
  next
    case False
    with 2 show ?thesis by simp
  qed
qed

lemma rstrip_idem: "rstrip (rstrip s) = rstrip s"
  by (simp add: rstrip_def dropWhile_idem)

lemma strip_idem: "strip (strip s) = strip s"
  by (simp add: strip_rstrip dropWhile_rstrip rstrip_idem dropWhile_idem)

lemma clean_twice: "CHR 0x0A \<notin> set s \<Longrightarrow> clean (clean s) = clean s"
proof -
  assume nl: "CHR 0x0A \<notin> set s"
  let ?u = "sub_spaces (strip (sub_brackets s))"
  have "open_tail ?u"
    using open_tail_sub_brackets[OF nl]
    by (simp add: strip_rstrip open_tail_sub_spaces open_tail_rstrip open_tail_dropWhile)
  then have 1: "sub_brackets ?u = ?u" by (rule sub_brackets_fixed)
  have 2: "strip ?u = ?u" by (simp add: sub_spaces_strip strip_idem)
  show ?thesis unfolding clean_def 1 2 by (rule sub_spaces_idem)
qed

lemma splitlines_from_no_break:
  "l \<in> set (splitlines_from cur s) \<Longrightarrow> \<forall>c\<in>set cur. \<not> is_linebreak c \<Longrightarrow> \<forall>c\<in>set l. \<not> is_linebreak c"
proof (induction cur s rule: splitlines_from.induct)
  case (1 cur)
  then show ?case by (auto split: if_splits)
next
  case (2 cur c cs)
  note mem = "2.prems"(1) and ok = "2.prems"(2)
  show ?case
  proof (cases "c = CHR 0x0D")
    case True
    show ?thesis
    proof (cases cs)
      case Nil
      with True mem have "l = cur" by simp
      with ok show ?thesis by simp
    next
      case (Cons d ds)
      show ?thesis
      proof (cases "d = CHR 0x0A")
        case lf: True
        from mem have "l = cur \<or> l \<in> set (splitlines_from [] ds)"
          unfolding True Cons lf by simp
        then show ?thesis using "2.IH"(1)[OF True Cons lf] ok by auto
      next
        case nolf: False
        from mem nolf have "l = cur \<or> l \<in> set (splitlines_from [] cs)"
          unfolding True Cons by simp
        then show ?thesis using "2.IH"(2)[OF True Cons nolf] ok by auto
      qed
    qed
  next
    case False
    show ?thesis
    proof (cases "is_linebreak c")
      case br: True
      with False mem have "l = cur \<or> l \<in> set (splitlines_from [] cs)" by simp
      then show ?thesis using "2.IH"(3)[OF False br] ok by auto
    next
      case nobr: False
      with False mem have "l \<in> set (splitlines_from (cur @ [c]) cs)" by simp
      then show ?thesis using "2.IH"(4)[OF False nobr] ok nobr by auto
    qed
  qed
qed

lemma splitlines_no_newline: "l \<in> set (splitlines s) \<Longrightarrow> CHR 0x0A \<notin> set l"
proof -
  assume "l \<in> set (splitlines s)"
  then have "\<forall>c\<in>set l. \<not> is_linebreak c"
    unfolding splitlines_def by (rule splitlines_from_no_break) simp
  moreover have "is_linebreak (CHR 0x0A)" by (simp add: is_linebreak_def)
  ultimately show ?thesis by blast
qed

lemma set_split_colon: "p \<in> set (split_colon l) \<Longrightarrow> set p \<subseteq> set l"
proof -
  assume p: "p \<in> set (split_colon l)"
  let ?P = "\<lambda>c. c \<noteq> CHR '':''"
  show ?thesis
  proof (cases "dropWhile ?P l")
    case Nil
    with p show ?thesis by (simp add: split_colon_def)
  next
    case (Cons a after)
    then have "set after \<subseteq> set l"
      by (metis set_dropWhileD list.set_intros(2) subsetI)
    moreover have "set (takeWhile ?P l) \<subseteq> set l"
      by (auto dest: set_takeWhileD)
    ultimately show ?thesis using p Cons by (auto simp: split_colon_def)
  qed
qed

lemma set_dialogue_of: "set (dialogue_of raw) \<subseteq> set raw"
proof -
  have "set (dialogue_segment raw) \<subseteq> set (strip raw)"
    unfolding dialogue_segment_def
    by (meson in_set_dropD set_dropWhileD subsetI)
  then show ?thesis
    unfolding dialogue_of_def using set_strip by blast
qed

lemma dialogue_no_newline: "raw \<in> set (splitlines script_content) \<Longrightarrow> CHR 0x0A \<notin> set (dialogue_of raw)"
  using splitlines_no_newline set_dialogue_of by blast

section \<open>The line loop\<close>

lemma split_colon_none: "CHR '':'' \<notin> set line \<Longrightarrow> split_colon line = [line]"
proof -
  assume "CHR '':'' \<notin> set line"
  then have dw: "dropWhile (\<lambda>c. c \<noteq> CHR '':'') line = []"
    by (auto simp: dropWhile_eq_Nil_conv)
  show ?thesis unfolding split_colon_def dw by simp
qed

lemma split_colon_some:
  "CHR '':'' \<in> set line \<Longrightarrow>
   split_colon line =
     [takeWhile (\<lambda>c. c \<noteq> CHR '':'') line, drop 1 (dropWhile (\<lambda>c. c \<noteq> CHR '':'') line)]"
proof -
  assume "CHR '':'' \<in> set line"
  then have "dropWhile (\<lambda>c. c \<noteq> CHR '':'') line \<noteq> []"
    by (auto simp: dropWhile_eq_Nil_conv)
  then show ?thesis
    by (cases "dropWhile (\<lambda>c. c \<noteq> CHR '':'') line") (simp_all add: split_colon_def)
qed

lemma format_test_iff:
  "(length (split_colon (strip raw)) < 2
      \<or> strip (split_colon (strip raw) ! 0) = [] \<or> strip (split_colon (strip raw) ! 1) = [])
   \<longleftrightarrow> \<not> well_formed raw"
proof (cases "CHR '':'' \<in> set (strip raw)")
  case True
  show ?thesis
    unfolding split_colon_some[OF True]
    by (simp add: well_formed_def True character_of_def dialogue_of_def
          name_segment_def dialogue_segment_def)
next
  case False
  then show ?thesis
    by (simp add: split_colon_none well_formed_def)
qed

lemma parts_well_formed:
  "well_formed raw \<Longrightarrow>
     strip (split_colon (strip raw) ! 0) = character_of raw
     \<and> strip (split_colon (strip raw) ! 1) = dialogue_of raw"
  by (simp add: well_formed_def split_colon_some character_of_def dialogue_of_def
        name_segment_def dialogue_segment_def)

lemma process_line_cases:
  "process_line env i raw st =
     (if \<not> nonblank raw then st
      else if \<not> well_formed raw then
        st\<lparr>line_processed_count := line_processed_count st + 1,
           error_summary := error_summary st @
             [''Line '' @ str_nat (i + 1) @ '' (Format Error): '' @ [CHR 0x27] @ strip raw
                @ [CHR 0x27]]\<rparr>
      else synthesize_line env i (character_of raw) (dialogue_of raw) (clean (dialogue_of raw))
             (st\<lparr>line_processed_count := line_processed_count st + 1\<rparr>))"
proof (cases "nonblank raw")
  case False
  then show ?thesis by (simp add: process_line_def nonblank_def)
next
  case True
  then have nb: "strip raw \<noteq> []" by (simp add: nonblank_def)
  show ?thesis
  proof (cases "well_formed raw")
    case False
    then show ?thesis
      using True nb format_test_iff[of raw]
      by (simp add: process_line_def Let_def)
  next
    case wf: True
    then show ?thesis
      using True nb format_test_iff[of raw] parts_well_formed[OF wf]
      by (simp add: process_line_def Let_def)
  qed
qed

lemma voices_nonempty: "CHARACTER_VOICES c = Some v \<Longrightarrow> v \<noteq> []"
  by (auto simp: CHARACTER_VOICES_def split: if_splits)

lemma synthesize_not_configured:
  "CHARACTER_VOICES c = None \<Longrightarrow>
   synthesize_line env i c d cd st =
     st\<lparr>error_summary := error_summary st @
          [''Line '' @ str_nat (i + 1) @ '': Character '' @ [CHR 0x27] @ c @ [CHR 0x27]
             @ '' not configured.'']\<rparr>"
  by (simp add: synthesize_line_def falsy_def)

lemma synthesize_empty_text:
  "CHARACTER_VOICES c = Some v \<Longrightarrow>
   synthesize_line env i c d [] st =
     st\<lparr>error_summary := error_summary st @
          [''Line '' @ str_nat (i + 1) @ '' ('' @ c @ ''): ''
             @ ''No dialogue text remaining after removing brackets.'']\<rparr>"
  using voices_nonempty[of c v]
  by (simp add: synthesize_line_def falsy_def generate_audio_for_line_def Let_def)

lemma synthesize_provider_error:
  "CHARACTER_VOICES c = Some v \<Longrightarrow> cd \<noteq> [] \<Longrightarrow>
   provider env i v cd
     (path_join (OUTPUT_DIR env) (fmt03d (line_processed_count st) @ ''_'' @ c @ ''.mp3'')) = Some e \<Longrightarrow>
   synthesize_line env i c d cd st =
     st\<lparr>provider_calls := provider_calls st @
          [(v, cd, path_join (OUTPUT_DIR env) (fmt03d (line_processed_count st) @ ''_'' @ c @ ''.mp3''))],
        error_summary := error_summary st @
          [''Line '' @ str_nat (i + 1) @ '' ('' @ c @ ''): ''
             @ ''API Error for '' @ [CHR 0x27] @ c @ [CHR 0x27] @ '': '' @ e]\<rparr>"
  using voices_nonempty[of c v]
  by (simp add: synthesize_line_def falsy_def generate_audio_for_line_def Let_def)

lemma synthesize_success:
  "CHARACTER_VOICES c = Some v \<Longrightarrow> cd \<noteq> [] \<Longrightarrow>
   provider env i v cd
     (path_join (OUTPUT_DIR env) (fmt03d (line_processed_count st) @ ''_'' @ c @ ''.mp3'')) = None \<Longrightarrow>
   synthesize_line env i c d cd st =
     st\<lparr>provider_calls := provider_calls st @
          [(v, cd, path_join (OUTPUT_DIR env) (fmt03d (line_processed_count st) @ ''_'' @ c @ ''.mp3''))],
        audio_files_generated_count := audio_files_generated_count st + 1,
        output_html := output_html st @
          ''<p><strong>'' @ c @ '':</strong> '' @ d
          @ ''</p><audio controls src='' @ [CHR 0x27] @ ''file=''
          @ path_join (OUTPUT_DIR env) (fmt03d (line_processed_count st) @ ''_'' @ c @ ''.mp3'')
          @ [CHR 0x27] @ ''></audio><br><br>'',
        artifacts := artifacts st @
          [path_join (OUTPUT_DIR env) (fmt03d (line_processed_count st) @ ''_'' @ c @ ''.mp3'')]\<rparr>"
  using voices_nonempty[of c v]
  by (simp add: synthesize_line_def falsy_def generate_audio_for_line_def Let_def)

lemma well_formed_nonblank: "well_formed raw \<Longrightarrow> nonblank raw"
  by (auto simp: well_formed_def nonblank_def)

lemma digit_not_slash: "(n::nat) < 10 \<Longrightarrow> ''0123456789'' ! n \<noteq> CHR ''/''"
proof -
  assume "n < 10"
  then have "n \<in> {0, 1, 2, 3, 4, 5, 6, 7, 8, 9}" by auto
  then show ?thesis by auto
qed

lemma str_nat_no_slash: "str_nat n \<noteq> [] \<and> CHR ''/'' \<notin> set (str_nat n)"
proof (induction n rule: str_nat.induct)
  case (1 n)
  show ?case
  proof (cases "n < 10")
    case True
    then show ?thesis using digit_not_slash[of n] by (simp add: str_nat.simps[of n])
  next
    case False
    have "n mod 10 < 10" by simp
    then have "''0123456789'' ! (n mod 10) \<noteq> CHR ''/''" by (rule digit_not_slash)
    with False 1 show ?thesis by (simp add: str_nat.simps[of n])
  qed
qed

lemma fmt03d_head: "fmt03d n \<noteq> [] \<and> hd (fmt03d n) \<noteq> CHR ''/''"
proof -
  have ne: "fmt03d n \<noteq> []" using str_nat_no_slash[of n] by (simp add: fmt03d_def)
  have "CHR ''/'' \<notin> set (fmt03d n)" using str_nat_no_slash[of n] by (auto simp: fmt03d_def)
  with ne show ?thesis using hd_in_set by metis
qed

lemma artifact_path:
  "path_join (OUTPUT_DIR env) (fmt03d n @ CHR ''_'' # c @ ''.mp3'') = OUTPUT_DIR env @ ''/'' @ artifact_name n c"
proof -
  have "hd (fmt03d n @ ''_'' @ c @ ''.mp3'') \<noteq> CHR ''/''"
    using fmt03d_head[of n] by simp
  moreover have "OUTPUT_DIR env \<noteq> [] \<and> last (OUTPUT_DIR env) \<noteq> CHR ''/''"
    by (simp add: OUTPUT_DIR_def split: option.splits)
  ultimately show ?thesis by (simp add: path_join_def artifact_name_def)
qed

lemma process_lines_append:
  "process_lines env i (xs @ ys) st = process_lines env (i + length xs) ys (process_lines env i xs st)"
  by (induction xs arbitrary: i st) simp_all

lemma process_line_count:
  "line_processed_count (process_line env i raw st) =
     line_processed_count st + (if nonblank raw then 1 else 0)"
  by (simp add: process_line_cases synthesize_line_def Let_def split: prod.splits)

lemma process_lines_count:
  "line_processed_count (process_lines env i ls st) =
     line_processed_count st + length (filter nonblank ls)"
  by (induction ls arbitrary: i st) (simp_all add: process_line_count)

lemma line_blank: "\<not> nonblank raw \<Longrightarrow> process_line env i raw st = st"
  by (simp add: process_line_cases)

lemma line_format_error:
  "nonblank raw \<Longrightarrow> \<not> well_formed raw \<Longrightarrow>
   process_line env i raw st =
     st\<lparr>line_processed_count := line_processed_count st + 1,
        error_summary := error_summary st @
          [''Line '' @ str_nat (i + 1) @ '' (Format Error): '' @ [CHR 0x27] @ strip raw
             @ [CHR 0x27]]\<rparr>"
  by (simp add: process_line_cases)

lemma line_not_configured:
  "well_formed raw \<Longrightarrow> CHARACTER_VOICES (character_of raw) = None \<Longrightarrow>
   process_line env i raw st =
     st\<lparr>line_processed_count := line_processed_count st + 1,
        error_summary := error_summary st @
          [''Line '' @ str_nat (i + 1) @ '': Character '' @ [CHR 0x27] @ character_of raw
             @ [CHR 0x27] @ '' not configured.'']\<rparr>"
  by (simp add: process_line_cases well_formed_nonblank synthesize_not_configured)

lemma line_empty_text:
  "well_formed raw \<Longrightarrow> CHARACTER_VOICES (character_of raw) = Some v \<Longrightarrow>
   clean (dialogue_of raw) = [] \<Longrightarrow>
   process_line env i raw st =
     st\<lparr>line_processed_count := line_processed_count st + 1,
        error_summary := error_summary st @
          [''Line '' @ str_nat (i + 1) @ '' ('' @ character_of raw @ ''): ''
             @ ''No dialogue text remaining after removing brackets.'']\<rparr>"
  by (simp add: process_line_cases well_formed_nonblank synthesize_empty_text)

lemma line_provider_error:
  assumes "well_formed raw" and "CHARACTER_VOICES (character_of raw) = Some v"
    and "clean (dialogue_of raw) \<noteq> []"
    and "provider env i v (clean (dialogue_of raw))
           (OUTPUT_DIR env @ ''/'' @ artifact_name (line_processed_count st + 1) (character_of raw))
         = Some e"
  shows "process_line env i raw st =
     st\<lparr>line_processed_count := line_processed_count st + 1,
        provider_calls := provider_calls st @
          [(v, clean (dialogue_of raw),
            OUTPUT_DIR env @ ''/'' @ artifact_name (line_processed_count st + 1) (character_of raw))],
        error_summary := error_summary st @
          [''Line '' @ str_nat (i + 1) @ '' ('' @ character_of raw @ ''): ''
             @ ''API Error for '' @ [CHR 0x27] @ character_of raw @ [CHR 0x27] @ '': '' @ e]\<rparr>"
proof -
  let ?st = "st\<lparr>line_processed_count := line_processed_count st + 1\<rparr>"
  have "process_line env i raw st =
          synthesize_line env i (character_of raw) (dialogue_of raw) (clean (dialogue_of raw)) ?st"
    using assms(1) by (simp add: process_line_cases well_formed_nonblank)
  also have "\<dots> = ?st\<lparr>provider_calls := provider_calls ?st @
          [(v, clean (dialogue_of raw),
            path_join (OUTPUT_DIR env)
              (fmt03d (line_processed_count ?st) @ ''_'' @ character_of raw @ ''.mp3''))],
        error_summary := error_summary ?st @
          [''Line '' @ str_nat (i + 1) @ '' ('' @ character_of raw @ ''): ''
             @ ''API Error for '' @ [CHR 0x27] @ character_of raw @ [CHR 0x27] @ '': '' @ e]\<rparr>"
    using assms(2-4) by (intro synthesize_provider_error) (simp_all add: artifact_path)
  finally show ?thesis by (simp add: artifact_path)
qed

lemma line_success:
  assumes "well_formed raw" and "CHARACTER_VOICES (character_of raw) = Some v"
    and "clean (dialogue_of raw) \<noteq> []"
    and "provider env i v (clean (dialogue_of raw))
           (OUTPUT_DIR env @ ''/'' @ artifact_name (line_processed_count st + 1) (character_of raw))
         = None"
  shows "process_line env i raw st =
     st\<lparr>line_processed_count := line_processed_count st + 1,
        provider_calls := provider_calls st @
          [(v, clean (dialogue_of raw),
            OUTPUT_DIR env @ ''/'' @ artifact_name (line_processed_count st + 1) (character_of raw))],
        audio_files_generated_count := audio_files_generated_count st + 1,
        output_html := output_html st @
          ''<p><strong>'' @ character_of raw @ '':</strong> '' @ dialogue_of raw
          @ ''</p><audio controls src='' @ [CHR 0x27] @ ''file=''
          @ OUTPUT_DIR env @ ''/'' @ artifact_name (line_processed_count st + 1) (character_of raw)
          @ [CHR 0x27] @ ''></audio><br><br>'',
        artifacts := artifacts st @
          [OUTPUT_DIR env @ ''/'' @ artifact_name (line_processed_count st + 1) (character_of raw)]\<rparr>"
proof -
  let ?st = "st\<lparr>line_processed_count := line_processed_count st + 1\<rparr>"
  let ?f = "path_join (OUTPUT_DIR env)
              (fmt03d (line_processed_count ?st) @ ''_'' @ character_of raw @ ''.mp3'')"
  have "process_line env i raw st =
          synthesize_line env i (character_of raw) (dialogue_of raw) (clean (dialogue_of raw)) ?st"
    using assms(1) by (simp add: process_line_cases well_formed_nonblank)
  also have "\<dots> = ?st\<lparr>provider_calls := provider_calls ?st @ [(v, clean (dialogue_of raw), ?f)],
        audio_files_generated_count := audio_files_generated_count ?st + 1,
        output_html := output_html ?st @
          ''<p><strong>'' @ character_of raw @ '':</strong> '' @ dialogue_of raw
          @ ''</p><audio controls src='' @ [CHR 0x27] @ ''file='' @ ?f
          @ [CHR 0x27] @ ''></audio><br><br>'',
        artifacts := artifacts ?st @ [?f]\<rparr>"
    using assms(2-4) by (intro synthesize_success) (simp_all add: artifact_path)
  finally show ?thesis by (simp add: artifact_path)
qed

lemma str_nat_digit: "n < 10 \<Longrightarrow> str_nat n = [''0123456789'' ! n]"
  by (simp add: str_nat.simps[of n])

lemmas line_eval = nonblank_def well_formed_def character_of_def dialogue_of_def
  name_segment_def dialogue_segment_def strip_def isspace_def clean_def
  CHARACTER_VOICES_def str_nat_digit

lemma configured_names:
  "CHARACTER_VOICES c = Some v \<Longrightarrow>
   c \<in> {''Krishna'', ''Radha'', ''Ganesha'', ''Narrator'', ''Friend1'', ''Friend2''}"
  by (auto simp: CHARACTER_VOICES_def split: if_splits)

lemma synthesize_errors:
  "error_summary (synthesize_line env i c d cd st) = error_summary st
   \<or> (\<exists>m. CHARACTER_VOICES c = None \<and>
          error_summary (synthesize_line env i c d cd st) =
            error_summary st @ [''Line '' @ str_nat (i + 1) @ '': Character '' @ m])
   \<or> (\<exists>v m. CHARACTER_VOICES c = Some v \<and>
          error_summary (synthesize_line env i c d cd st) =
            error_summary st @ [''Line '' @ str_nat (i + 1) @ '' ('' @ c @ ''): '' @ m])"
  using voices_nonempty[of c]
  by (auto simp: synthesize_line_def generate_audio_for_line_def Let_def falsy_def
        split: option.splits)

lemma no_format_error_entry:
  assumes "well_formed raw"
  shows "error_summary (process_line env i raw st) \<noteq>
           error_summary st @ [''Line '' @ str_nat (i + 1) @ '' (Format Error): '' @ t]"
proof -
  let ?st = "st\<lparr>line_processed_count := line_processed_count st + 1\<rparr>"
  let ?c = "character_of raw"
  have run: "process_line env i raw st =
          synthesize_line env i ?c (dialogue_of raw) (clean (dialogue_of raw)) ?st"
    using assms by (simp add: process_line_cases well_formed_nonblank)
  have es: "error_summary ?st = error_summary st" by simp
  from synthesize_errors[of env i ?c "dialogue_of raw" "clean (dialogue_of raw)" ?st]
  consider
    (same) "error_summary (process_line env i raw st) = error_summary st"
  | (unknown) m where "error_summary (process_line env i raw st) =
        error_summary st @ [''Line '' @ str_nat (i + 1) @ '': Character '' @ m]"
  | (failed) v m where "CHARACTER_VOICES ?c = Some v"
      "error_summary (process_line env i raw st) =
        error_summary st @ [''Line '' @ str_nat (i + 1) @ '' ('' @ ?c @ ''): '' @ m]"
    unfolding run es by blast
  then show ?thesis
  proof cases
    case same
    then show ?thesis by simp
  next
    case unknown
    then show ?thesis by simp
  next
    case failed
    from configured_names[OF failed(1)] show ?thesis
      unfolding failed(2) by auto
  qed
qed

lemma fmt03d_digit: "n < 10 \<Longrightarrow> fmt03d n = ''00'' @ [''0123456789'' ! n]"
  by (simp add: fmt03d_def str_nat_digit numeral_2_eq_2)

lemmas batch_eval = process_line_cases synthesize_line_def generate_audio_for_line_def
  falsy_def batch0_def demo_env_def OUTPUT_DIR_def path_join_def fmt03d_digit Let_def

lemma synthesize_outcome:
  "line_processed_count (synthesize_line env i c d cd st) = line_processed_count st
   \<and> ((audio_files_generated_count (synthesize_line env i c d cd st) =
          audio_files_generated_count st + 1
        \<and> (\<exists>f. artifacts (synthesize_line env i c d cd st) = artifacts st @ [f])
        \<and> error_summary (synthesize_line env i c d cd st) = error_summary st)
      \<or> (audio_files_generated_count (synthesize_line env i c d cd st) =
            audio_files_generated_count st
        \<and> artifacts (synthesize_line env i c d cd st) = artifacts st
        \<and> (\<exists>e. error_summary (synthesize_line env i c d cd st) = error_summary st @ [e])))"
  by (auto simp: synthesize_line_def generate_audio_for_line_def Let_def split: option.splits)

lemma process_line_outcome:
  assumes "nonblank raw"
  shows "line_processed_count (process_line env i raw st) = line_processed_count st + 1
   \<and> ((audio_files_generated_count (process_line env i raw st) =
          audio_files_generated_count st + 1
        \<and> (\<exists>f. artifacts (process_line env i raw st) = artifacts st @ [f])
        \<and> error_summary (process_line env i raw st) = error_summary st)
      \<or> (audio_files_generated_count (process_line env i raw st) =
            audio_files_generated_count st
        \<and> artifacts (process_line env i raw st) = artifacts st
        \<and> (\<exists>e. error_summary (process_line env i raw st) = error_summary st @ [e])))"
proof (cases "well_formed raw")
  case False
  with assms show ?thesis by (simp add: line_format_error)
next
  case True
  let ?st = "st\<lparr>line_processed_count := line_processed_count st + 1\<rparr>"
  have run: "process_line env i raw st =
          synthesize_line env i (character_of raw) (dialogue_of raw) (clean (dialogue_of raw)) ?st"
    using assms True by (simp add: process_line_cases)
  show ?thesis
    unfolding run
    using synthesize_outcome[of env i "character_of raw" "dialogue_of raw"
        "clean (dialogue_of raw)" ?st]
    by simp
qed

lemma process_line_balanced: "balanced st \<Longrightarrow> balanced (process_line env i raw st)"
proof (cases "nonblank raw")
  case False
  assume "balanced st"
  with False show ?thesis by (simp add: line_blank)
next
  case True
  assume "balanced st"
  with process_line_outcome[OF True, of env i st] show ?thesis
    unfolding balanced_def by auto
qed

lemma process_lines_balanced: "balanced st \<Longrightarrow> balanced (process_lines env i ls st)"
  by (induction ls arbitrary: i st) (simp_all add: process_line_balanced)

lemma balanced_batch0: "balanced batch0"
  by (simp add: balanced_def batch0_def)

lemma generate_voice_over_balanced: "balanced (snd (generate_voice_over env f))"
  by (auto simp: generate_voice_over_def Let_def balanced_batch0 process_lines_balanced
        split: option.splits sum.splits)

lemma process_lines_take_Suc:
  assumes "k < length ls"
  shows "process_lines env 0 (take (Suc k) ls) st =
           process_line env k (ls ! k) (process_lines env 0 (take k ls) st)"
proof -
  have "take (Suc k) ls = take k ls @ [ls ! k]"
    using assms by (rule take_Suc_conv_app_nth)
  then show ?thesis
    using assms by (simp add: process_lines_append)
qed

lemma synthesize_artifact:
  "artifacts (synthesize_line env i c d cd st) = artifacts st
   \<or> artifacts (synthesize_line env i c d cd st) =
       artifacts st @ [OUTPUT_DIR env @ ''/'' @ artifact_name (line_processed_count st) c]"
  by (auto simp: synthesize_line_def generate_audio_for_line_def Let_def artifact_path
        split: option.splits)

lemma process_line_artifact:
  "artifacts (process_line env i raw st) = artifacts st
   \<or> (nonblank raw \<and> artifacts (process_line env i raw st) =
        artifacts st @
          [OUTPUT_DIR env @ ''/'' @ artifact_name (line_processed_count st + 1) (character_of raw)])"
proof (cases "nonblank raw \<and> well_formed raw")
  case False
  then show ?thesis by (auto simp: process_line_cases)
next
  case True
  let ?st = "st\<lparr>line_processed_count := line_processed_count st + 1\<rparr>"
  from True have run: "process_line env i raw st =
          synthesize_line env i (character_of raw) (dialogue_of raw) (clean (dialogue_of raw)) ?st"
    by (simp add: process_line_cases)
  show ?thesis
    unfolding run
    using True synthesize_artifact[of env i "character_of raw" "dialogue_of raw"
        "clean (dialogue_of raw)" ?st]
    by simp
qed

lemma step_artifact:
  assumes "k < length ls"
  shows "artifacts (process_lines env 0 (take (Suc k) ls) batch0) =
           artifacts (process_lines env 0 (take k ls) batch0)
         \<or> artifacts (process_lines env 0 (take (Suc k) ls) batch0) =
             artifacts (process_lines env 0 (take k ls) batch0) @
               [OUTPUT_DIR env @ ''/'' @
                  artifact_name (length (filter nonblank (take (Suc k) ls)))
                    (character_of (ls ! k))]"
proof -
  let ?before = "process_lines env 0 (take k ls) batch0"
  have cnt: "line_processed_count ?before = length (filter nonblank (take k ls))"
    by (simp add: process_lines_count batch0_def)
  have tk: "take (Suc k) ls = take k ls @ [ls ! k]"
    using assms by (rule take_Suc_conv_app_nth)
  from process_line_artifact[of env k "ls ! k" ?before]
  show ?thesis
    unfolding process_lines_take_Suc[OF assms]
    by (auto simp: cnt tk)
qed

lemma three_lines:
  assumes one: "synthesizes env 0 1 l1"
    and two: "nonblank l2" "CHR '':'' \<notin> set l2"
    and three: "synthesizes env 2 3 l3"
  shows "line_processed_count (process_lines env 0 [l1, l2, l3] batch0) = 3
     \<and> audio_files_generated_count (process_lines env 0 [l1, l2, l3] batch0) = 2
     \<and> error_summary (process_lines env 0 [l1, l2, l3] batch0) =
         [''Line 2 (Format Error): '' @ [CHR 0x27] @ strip l2 @ [CHR 0x27]]
     \<and> artifacts (process_lines env 0 [l1, l2, l3] batch0) =
         [OUTPUT_DIR env @ ''/'' @ artifact_name 1 (character_of l1),
          OUTPUT_DIR env @ ''/'' @ artifact_name 3 (character_of l3)]"
proof -
  from one obtain v1 where v1: "well_formed l1" "CHARACTER_VOICES (character_of l1) = Some v1"
      "clean (dialogue_of l1) \<noteq> []"
      "provider env 0 v1 (clean (dialogue_of l1))
         (OUTPUT_DIR env @ ''/'' @ artifact_name 1 (character_of l1)) = None"
    by (auto simp: synthesizes_def split: option.splits)
  from three obtain v3 where v3: "well_formed l3" "CHARACTER_VOICES (character_of l3) = Some v3"
      "clean (dialogue_of l3) \<noteq> []"
      "provider env 2 v3 (clean (dialogue_of l3))
         (OUTPUT_DIR env @ ''/'' @ artifact_name 3 (character_of l3)) = None"
    by (auto simp: synthesizes_def split: option.splits)
  have nwf: "\<not> well_formed l2"
  proof
    assume "well_formed l2"
    then have "CHR '':'' \<in> set (strip l2)" by (simp add: well_formed_def)
    with set_strip[of l2] two(2) show False by blast
  qed
  define s1 where "s1 = process_line env 0 l1 batch0"
  define s2 where "s2 = process_line env 1 l2 s1"
  define s3 where "s3 = process_line env 2 l3 s2"
  have c0: "provider env 0 v1 (clean (dialogue_of l1))
         (OUTPUT_DIR env @ ''/'' @ artifact_name (line_processed_count batch0 + 1) (character_of l1))
       = None"
    using v1(4) by (simp add: batch0_def)
  have e1: "s1 = batch0\<lparr>line_processed_count := line_processed_count batch0 + 1,
        provider_calls := provider_calls batch0 @
          [(v1, clean (dialogue_of l1),
            OUTPUT_DIR env @ ''/'' @ artifact_name (line_processed_count batch0 + 1) (character_of l1))],
        audio_files_generated_count := audio_files_generated_count batch0 + 1,
        output_html := output_html batch0 @
          ''<p><strong>'' @ character_of l1 @ '':</strong> '' @ dialogue_of l1
          @ ''</p><audio controls src='' @ [CHR 0x27] @ ''file=''
          @ OUTPUT_DIR env @ ''/'' @ artifact_name (line_processed_count batch0 + 1) (character_of l1)
          @ [CHR 0x27] @ ''></audio><br><br>'',
        artifacts := artifacts batch0 @
          [OUTPUT_DIR env @ ''/'' @ artifact_name (line_processed_count batch0 + 1) (character_of l1)]\<rparr>"
    unfolding s1_def using v1(1-3) c0 by (rule line_success)
  then have p1: "line_processed_count s1 = 1" "audio_files_generated_count s1 = 1"
      "error_summary s1 = []"
      "artifacts s1 = [OUTPUT_DIR env @ ''/'' @ artifact_name 1 (character_of l1)]"
    by (simp_all add: batch0_def)
  have e2: "s2 = s1\<lparr>line_processed_count := line_processed_count s1 + 1,
        error_summary := error_summary s1 @
          [''Line '' @ str_nat (1 + 1) @ '' (Format Error): '' @ [CHR 0x27] @ strip l2
             @ [CHR 0x27]]\<rparr>"
    unfolding s2_def using two(1) nwf by (rule line_format_error)
  then have p2: "line_processed_count s2 = 2" "audio_files_generated_count s2 = 1"
      "error_summary s2 = [''Line 2 (Format Error): '' @ [CHR 0x27] @ strip l2 @ [CHR 0x27]]"
      "artifacts s2 = [OUTPUT_DIR env @ ''/'' @ artifact_name 1 (character_of l1)]"
    using p1 by (simp_all add: str_nat_digit)
  have c2: "provider env 2 v3 (clean (dialogue_of l3))
         (OUTPUT_DIR env @ ''/'' @ artifact_name (line_processed_count s2 + 1) (character_of l3))
       = None"
    using v3(4) p2(1) by simp
  have e3: "s3 = s2\<lparr>line_processed_count := line_processed_count s2 + 1,
        provider_calls := provider_calls s2 @
          [(v3, clean (dialogue_of l3),
            OUTPUT_DIR env @ ''/'' @ artifact_name (line_processed_count s2 + 1) (character_of l3))],
        audio_files_generated_count := audio_files_generated_count s2 + 1,
        output_html := output_html s2 @
          ''<p><strong>'' @ character_of l3 @ '':</strong> '' @ dialogue_of l3
          @ ''</p><audio controls src='' @ [CHR 0x27] @ ''file=''
          @ OUTPUT_DIR env @ ''/'' @ artifact_name (line_processed_count s2 + 1) (character_of l3)
          @ [CHR 0x27] @ ''></audio><br><br>'',
        artifacts := artifacts s2 @
          [OUTPUT_DIR env @ ''/'' @ artifact_name (line_processed_count s2 + 1) (character_of l3)]\<rparr>"
    unfolding s3_def using v3(1-3) c2 by (rule line_success)
  then have p3: "line_processed_count s3 = 3" "audio_files_generated_count s3 = 2"
      "error_summary s3 = [''Line 2 (Format Error): '' @ [CHR 0x27] @ strip l2 @ [CHR 0x27]]"
      "artifacts s3 = [OUTPUT_DIR env @ ''/'' @ artifact_name 1 (character_of l1),
                       OUTPUT_DIR env @ ''/'' @ artifact_name 3 (character_of l3)]"
    using p2 by simp_all
  have "process_lines env 0 [l1, l2, l3] batch0 = s3"
    by (simp add: s1_def s2_def s3_def numeral_2_eq_2)
  with p3 show ?thesis by simp
qed

lemma generate_voice_over_runs:
  "endswith (str_lower (name f)) ''.txt'' \<Longrightarrow> initialize_vertex_ai env = Inr u \<Longrightarrow>
   read_decode f = Inr script_content \<Longrightarrow>
   generate_voice_over env (Some f) =
     (report (process_lines env 0 (splitlines script_content) batch0),
      process_lines env 0 (splitlines script_content) batch0)"
  by (simp add: generate_voice_over_def Let_def)

lemma str_nat_length: "n < 1000 \<Longrightarrow> 1 \<le> length (str_nat n) \<and> length (str_nat n) \<le> 3"
proof -
  assume n: "n < 1000"
  show ?thesis
  proof (cases "n < 10")
    case True
    then show ?thesis by (simp add: str_nat.simps[of n])
  next
    case False
    show ?thesis
    proof (cases "n < 100")
      case True
      then have "n div 10 < 10" by simp
      with False show ?thesis
        by (simp add: str_nat.simps[of n] str_nat.simps[of "n div 10"])
    next
      case big: False
      from n have "n div 10 div 10 < 10" by simp
      moreover from big have "\<not> n div 10 < 10" by simp
      ultimately show ?thesis
        using False
        by (simp add: str_nat.simps[of n] str_nat.simps[of "n div 10"]
              str_nat.simps[of "n div 10 div 10"])
    qed
  qed
qed

lemma fmt03d_length: "n < 1000 \<Longrightarrow> length (fmt03d n) = 3"
  using str_nat_length[of n] by (simp add: fmt03d_def)

lemma fatal_no_file:
  "generate_voice_over env None = ((''Please upload a script file.'', [], False), batch0)"
  by (simp add: generate_voice_over_def)

lemma fatal_extension:
  "\<not> endswith (str_lower (name f)) ''.txt'' \<Longrightarrow>
   generate_voice_over env (Some f) =
     ((''Invalid File Type: Please upload a .txt file.'', [], False), batch0)"
  by (simp add: generate_voice_over_def)

lemma fatal_init:
  "endswith (str_lower (name f)) ''.txt'' \<Longrightarrow> initialize_vertex_ai env = Inl e \<Longrightarrow>
   generate_voice_over env (Some f) = ((e, [], False), batch0)"
  by (simp add: generate_voice_over_def)

lemma init_no_project:
  "GCP_PROJECT_ID env = None \<Longrightarrow>
   initialize_vertex_ai env = Inl ''Configuration Error: GCP_PROJECT_ID environment variable is not set. Please set it in the Cloud Run deployment settings.''"
  by (simp add: initialize_vertex_ai_def)

lemma remove_all_effect:
  "deleted_count (remove_all dir rm files sw) =
     deleted_count sw + length (filter (\<lambda>f. rm (path_join dir f) = None) files)
   \<and> attempted (remove_all dir rm files sw) = attempted sw @ map (path_join dir) files
   \<and> printed (remove_all dir rm files sw) =
       printed sw @
         map (\<lambda>f. ''Error deleting file '' @ f @ '': '' @ the (rm (path_join dir f)))
           (filter (\<lambda>f. rm (path_join dir f) \<noteq> None) files)"
proof (induction files arbitrary: sw)
  case Nil
  then show ?case by simp
next
  case (Cons f files)
  show ?case
    by (cases "rm (path_join dir f)") (simp_all add: Cons Let_def)
qed

section \<open>The claims of the specification\<close>

text \<open>
  Claim C1. For every script, the processed-line count equals the number of non-blank
  lines (also in the state returned by \<open>generate_voice_over\<close> for an accepted upload).
  Each line of the script adds either no artifact or exactly one, whose file name, in the
  output directory, is the count of non-blank lines up to and including that line, padded
  with zeros to three digits (exactly three below 1000), an underscore, the character
  name and \<open>.mp3\<close>. In particular, for a script of three lines whose first and third lines
  are valid and configured (well formed, with a character of the registry, a cleaned
  dialogue that is not empty and a provider call that succeeds) and whose second line is
  not blank and has no colon: three lines are processed, two files are generated, the
  only error is the Format Error of line 2, and the artifacts are \<open>001_<Char1>.mp3\<close> and
  \<open>003_<Char2>.mp3\<close>.
\<close>

theorem processed_count_and_artifact_names:
  "line_processed_count (process_lines env 0 (splitlines script_content) batch0) =
     length (filter nonblank (splitlines script_content))
   \<and> (endswith (str_lower (name f)) ''.txt'' \<and> initialize_vertex_ai env = Inr ()
        \<and> read_decode f = Inr script_content \<longrightarrow>
      snd (generate_voice_over env (Some f)) =
        process_lines env 0 (splitlines script_content) batch0)
   \<and> (\<forall>k<length (splitlines script_content).
        artifacts (process_lines env 0 (take (Suc k) (splitlines script_content)) batch0) =
          artifacts (process_lines env 0 (take k (splitlines script_content)) batch0)
        \<or> artifacts (process_lines env 0 (take (Suc k) (splitlines script_content)) batch0) =
            artifacts (process_lines env 0 (take k (splitlines script_content)) batch0) @
              [OUTPUT_DIR env @ ''/'' @
                 artifact_name (length (filter nonblank (take (Suc k) (splitlines script_content))))
                   (character_of (splitlines script_content ! k))])
   \<and> (n < 1000 \<longrightarrow> length (fmt03d n) = 3)
   \<and> (splitlines script_content = [l1, l2, l3]
        \<and> synthesizes env 0 1 l1 \<and> nonblank l2 \<and> CHR '':'' \<notin> set l2 \<and> synthesizes env 2 3 l3
      \<longrightarrow>
        line_processed_count (process_lines env 0 (splitlines script_content) batch0) = 3
        \<and> audio_files_generated_count (process_lines env 0 (splitlines script_content) batch0) = 2
        \<and> error_summary (process_lines env 0 (splitlines script_content) batch0) =
            [''Line 2 (Format Error): '' @ [CHR 0x27] @ strip l2 @ [CHR 0x27]]
        \<and> artifacts (process_lines env 0 (splitlines script_content) batch0) =
            [OUTPUT_DIR env @ ''/'' @ artifact_name 1 (character_of l1),
             OUTPUT_DIR env @ ''/'' @ artifact_name 3 (character_of l3)])"
proof (intro conjI impI allI)
  show "line_processed_count (process_lines env 0 (splitlines script_content) batch0) =
     length (filter nonblank (splitlines script_content))"
    by (simp add: process_lines_count batch0_def)
next
  assume "endswith (str_lower (name f)) ''.txt'' \<and> initialize_vertex_ai env = Inr ()
        \<and> read_decode f = Inr script_content"
  then show "snd (generate_voice_over env (Some f)) =
        process_lines env 0 (splitlines script_content) batch0"
    by (simp add: generate_voice_over_runs)
next
  fix k
  assume "k < length (splitlines script_content)"
  then show "artifacts (process_lines env 0 (take (Suc k) (splitlines script_content)) batch0) =
          artifacts (process_lines env 0 (take k (splitlines script_content)) batch0)
        \<or> artifacts (process_lines env 0 (take (Suc k) (splitlines script_content)) batch0) =
            artifacts (process_lines env 0 (take k (splitlines script_content)) batch0) @
              [OUTPUT_DIR env @ ''/'' @
                 artifact_name (length (filter nonblank (take (Suc k) (splitlines script_content))))
                   (character_of (splitlines script_content ! k))]"
    by (rule step_artifact)
next
  assume "n < 1000"
  then show "length (fmt03d n) = 3" by (rule fmt03d_length)
next
  assume a: "splitlines script_content = [l1, l2, l3]
        \<and> synthesizes env 0 1 l1 \<and> nonblank l2 \<and> CHR '':'' \<notin> set l2 \<and> synthesizes env 2 3 l3"
  then have t: "line_processed_count (process_lines env 0 [l1, l2, l3] batch0) = 3
     \<and> audio_files_generated_count (process_lines env 0 [l1, l2, l3] batch0) = 2
     \<and> error_summary (process_lines env 0 [l1, l2, l3] batch0) =
         [''Line 2 (Format Error): '' @ [CHR 0x27] @ strip l2 @ [CHR 0x27]]
     \<and> artifacts (process_lines env 0 [l1, l2, l3] batch0) =
         [OUTPUT_DIR env @ ''/'' @ artifact_name 1 (character_of l1),
          OUTPUT_DIR env @ ''/'' @ artifact_name 3 (character_of l3)]"
    by (intro three_lines) simp_all
  from a have sl: "splitlines script_content = [l1, l2, l3]" by simp
  from t show "line_processed_count (process_lines env 0 (splitlines script_content) batch0) = 3"
    and "audio_files_generated_count (process_lines env 0 (splitlines script_content) batch0) = 2"
    and "error_summary (process_lines env 0 (splitlines script_content) batch0) =
            [''Line 2 (Format Error): '' @ [CHR 0x27] @ strip l2 @ [CHR 0x27]]"
    and "artifacts (process_lines env 0 (splitlines script_content) batch0) =
            [OUTPUT_DIR env @ ''/'' @ artifact_name 1 (character_of l1),
             OUTPUT_DIR env @ ''/'' @ artifact_name 3 (character_of l3)]"
    unfolding sl by simp_all
qed

text \<open>
  The three-line script \<open>Krishna: Hello / fanfare / Radha: Hi\<close> in the example environment.
\<close>

theorem processed_count_and_artifact_names_witness:
  "splitlines (''Krishna: Hello'' @ [CHR 0x0A] @ ''fanfare'' @ [CHR 0x0A] @ ''Radha: Hi'') =
     [''Krishna: Hello'', ''fanfare'', ''Radha: Hi'']
   \<and> synthesizes demo_env 0 1 ''Krishna: Hello'' \<and> nonblank ''fanfare''
   \<and> CHR '':'' \<notin> set ''fanfare'' \<and> synthesizes demo_env 2 3 ''Radha: Hi''
   \<and> line_processed_count (process_lines demo_env 0
        (splitlines (''Krishna: Hello'' @ [CHR 0x0A] @ ''fanfare'' @ [CHR 0x0A] @ ''Radha: Hi'')) batch0) = 3
   \<and> audio_files_generated_count (process_lines demo_env 0
        (splitlines (''Krishna: Hello'' @ [CHR 0x0A] @ ''fanfare'' @ [CHR 0x0A] @ ''Radha: Hi'')) batch0) = 2
   \<and> error_summary (process_lines demo_env 0
        (splitlines (''Krishna: Hello'' @ [CHR 0x0A] @ ''fanfare'' @ [CHR 0x0A] @ ''Radha: Hi'')) batch0) =
       [''Line 2 (Format Error): '' @ [CHR 0x27] @ ''fanfare'' @ [CHR 0x27]]
   \<and> artifacts (process_lines demo_env 0
        (splitlines (''Krishna: Hello'' @ [CHR 0x0A] @ ''fanfare'' @ [CHR 0x0A] @ ''Radha: Hi'')) batch0) =
       [''voice_overs/001_Krishna.mp3'', ''voice_overs/003_Radha.mp3'']
   \<and> endswith (str_lower (name \<lparr>name = ''Script.TXT'', read_decode =
        Inr (''Krishna: Hello'' @ [CHR 0x0A] @ ''fanfare'' @ [CHR 0x0A] @ ''Radha: Hi'')\<rparr>)) ''.txt''
   \<and> initialize_vertex_ai demo_env = Inr ()
   \<and> line_processed_count (snd (generate_voice_over demo_env (Some \<lparr>name = ''Script.TXT'',
        read_decode = Inr (''Krishna: Hello'' @ [CHR 0x0A] @ ''fanfare'' @ [CHR 0x0A] @ ''Radha: Hi'')\<rparr>))) = 3
   \<and> (7::nat) < 1000 \<and> length (fmt03d 7) = 3"
proof -
  let ?script = "''Krishna: Hello'' @ [CHR 0x0A] @ ''fanfare'' @ [CHR 0x0A] @ ''Radha: Hi''"
  let ?f = "\<lparr>name = ''Script.TXT'', read_decode = Inr ?script\<rparr>"
  have sl: "splitlines ?script = [''Krishna: Hello'', ''fanfare'', ''Radha: Hi'']"
    by (simp add: splitlines_def is_linebreak_def)
  have l1: "synthesizes demo_env 0 1 ''Krishna: Hello''"
    and l2: "nonblank ''fanfare''" "CHR '':'' \<notin> set ''fanfare''"
    and l3: "synthesizes demo_env 2 3 ''Radha: Hi''"
    by (simp_all add: synthesizes_def line_eval demo_env_def)
  have names: "OUTPUT_DIR demo_env @ ''/'' @ artifact_name 1 (character_of ''Krishna: Hello'') =
        ''voice_overs/001_Krishna.mp3''"
      "OUTPUT_DIR demo_env @ ''/'' @ artifact_name 3 (character_of ''Radha: Hi'') =
        ''voice_overs/003_Radha.mp3''"
      "strip ''fanfare'' = ''fanfare''"
    by (simp_all add: OUTPUT_DIR_def demo_env_def artifact_name_def fmt03d_digit line_eval)
  have "endswith (str_lower ''Script.TXT'') ''.txt''" by code_simp
  then have ext: "endswith (str_lower (name ?f)) ''.txt''" by simp
  have init: "initialize_vertex_ai demo_env = Inr ()"
    by (simp add: initialize_vertex_ai_def demo_env_def)
  have rd: "read_decode ?f = Inr ?script" by simp
  have small: "(7::nat) < 1000" by simp
  note inst = processed_count_and_artifact_names[of demo_env ?script ?f 7
      "''Krishna: Hello''" "''fanfare''" "''Radha: Hi''"]
  from inst ext init rd
  have run: "snd (generate_voice_over demo_env (Some ?f)) =
        process_lines demo_env 0 (splitlines ?script) batch0"
    by blast
  from inst sl l1 l2 l3
  have ex: "line_processed_count (process_lines demo_env 0 (splitlines ?script) batch0) = 3
     \<and> audio_files_generated_count (process_lines demo_env 0 (splitlines ?script) batch0) = 2
     \<and> error_summary (process_lines demo_env 0 (splitlines ?script) batch0) =
         [''Line 2 (Format Error): '' @ [CHR 0x27] @ ''fanfare'' @ [CHR 0x27]]
     \<and> artifacts (process_lines demo_env 0 (splitlines ?script) batch0) =
         [''voice_overs/001_Krishna.mp3'', ''voice_overs/003_Radha.mp3'']"
    unfolding names by blast
  from inst small have len: "length (fmt03d 7) = 3" by blast
  from sl l1 l2 l3 ex ext init small len show ?thesis
    unfolding run by blast
qed

text \<open>
  Claim C2, as stated (the Format Error carries the raw line text): for the line
  \<open>  fanfare \<close>, with two leading spaces and one trailing space, the error entry quotes the
  trimmed text \<open>fanfare\<close>, not the line as it stands in the script.
\<close>

theorem format_error_trimmed_line:
  "error_summary (process_line demo_env 0 ''  fanfare '' batch0) =
     [''Line 1 (Format Error): '' @ [CHR 0x27] @ ''fanfare'' @ [CHR 0x27]]
   \<and> error_summary (process_line demo_env 0 ''  fanfare '' batch0) \<noteq>
     [''Line 1 (Format Error): '' @ [CHR 0x27] @ ''  fanfare '' @ [CHR 0x27]]"
  by (simp add: process_line_cases line_eval batch0_def)

text \<open>
  Claim C2, amended. For every non-blank line of the script: if splitting the trimmed
  line on its first colon yields a character-name segment and a dialogue segment that are
  both non-empty after trimming, the line is handed on exactly once, as line index,
  character name, original dialogue and cleaned dialogue, to the synthesis stage, and no
  Format Error entry is recorded for it; otherwise exactly one Format Error is recorded,
  tagged with the 1-based source line number and the trimmed line text, nothing is handed
  on, and processing continues with the next line.
\<close>

theorem format_check_per_line:
  "nonblank raw \<Longrightarrow>
     (well_formed raw \<longrightarrow>
        process_line env i raw st =
          synthesize_line env i (character_of raw) (dialogue_of raw) (clean (dialogue_of raw))
            (st\<lparr>line_processed_count := line_processed_count st + 1\<rparr>)
        \<and> (\<forall>t. error_summary (process_line env i raw st) \<noteq>
              error_summary st @ [''Line '' @ str_nat (i + 1) @ '' (Format Error): '' @ t]))
   \<and> (\<not> well_formed raw \<longrightarrow>
        process_line env i raw st =
          st\<lparr>line_processed_count := line_processed_count st + 1,
             error_summary := error_summary st @
               [''Line '' @ str_nat (i + 1) @ '' (Format Error): '' @ [CHR 0x27] @ strip raw
                  @ [CHR 0x27]]\<rparr>
        \<and> process_lines env i (raw # rest) st =
            process_lines env (Suc i) rest
              (st\<lparr>line_processed_count := line_processed_count st + 1,
                  error_summary := error_summary st @
                    [''Line '' @ str_nat (i + 1) @ '' (Format Error): '' @ [CHR 0x27] @ strip raw
                       @ [CHR 0x27]]\<rparr>))"
  using no_format_error_entry[of raw env i st]
  by (simp add: process_line_cases)

text \<open>
  A line without a colon and a well-formed line with a space before its colon.
\<close>

theorem format_check_per_line_witness:
  "nonblank ''  fanfare '' \<and> \<not> well_formed ''  fanfare ''
   \<and> nonblank ''Radha : hi'' \<and> well_formed ''Radha : hi''
   \<and> error_summary (process_line demo_env 4 ''  fanfare '' batch0) =
       [''Line 5 (Format Error): '' @ [CHR 0x27] @ ''fanfare'' @ [CHR 0x27]]
   \<and> process_line demo_env 4 ''Radha : hi'' batch0 =
       synthesize_line demo_env 4 ''Radha'' ''hi'' ''hi'' (batch0\<lparr>line_processed_count := 1\<rparr>)"
proof -
  have a: "nonblank ''  fanfare ''" and b: "\<not> well_formed ''  fanfare ''"
    and c: "nonblank ''Radha : hi''" and d: "well_formed ''Radha : hi''"
    by (simp_all add: line_eval)
  show ?thesis
    using a b c d format_check_per_line[OF a, of demo_env 4 batch0 "[]"]
      format_check_per_line[OF c, of demo_env 4 batch0 "[]"]
    by (simp add: line_eval batch0_def)
qed

text \<open>
  Claim C3. For every dialogue text, cleaning equals the reference definition: remove
  every span from a \<open>[\<close> to the nearest following \<open>]\<close>, then collapse every run of white
  space into one space, then trim. The dialogue text of a line of a script never holds a
  newline, the one character the source's pattern does not cross; the equality is stated
  for the dialogue text of every line of every script and for every text without a
  newline. In particular the text \<open>Hi [whisper] there [pause] friend\<close> is cleaned to
  \<open>Hi there friend\<close>.
\<close>

theorem clean_equals_reference:
  "(raw \<in> set (splitlines script_content) \<longrightarrow>
      clean (dialogue_of raw) = clean_reference (dialogue_of raw))
   \<and> (CHR 0x0A \<notin> set d \<longrightarrow> clean d = clean_reference d)
   \<and> clean ''Hi [whisper] there [pause] friend'' = ''Hi there friend''"
proof (intro conjI impI)
  show "clean (dialogue_of raw) = clean_reference (dialogue_of raw)"
    if "raw \<in> set (splitlines script_content)"
    using that by (intro clean_refines dialogue_no_newline)
  show "clean d = clean_reference d" if "CHR 0x0A \<notin> set d"
    using that by (rule clean_refines)
  show "clean ''Hi [whisper] there [pause] friend'' = ''Hi there friend''"
    by (simp add: clean_def strip_def isspace_def)
qed

text \<open>
  The same on a line of a one-line script and on a text with an unclosed bracket.
\<close>

theorem clean_equals_reference_witness:
  "''Radha: Hi [whisper] there'' \<in> set (splitlines ''Radha: Hi [whisper] there'')
   \<and> CHR 0x0A \<notin> set ''a [b] c [d''
   \<and> clean (dialogue_of ''Radha: Hi [whisper] there'') = clean_reference (dialogue_of ''Radha: Hi [whisper] there'')
   \<and> clean ''a [b] c [d'' = clean_reference ''a [b] c [d''"
  using clean_equals_reference[of "''Radha: Hi [whisper] there''" "''Radha: Hi [whisper] there''" "''a [b] c [d''"]
  by (simp add: splitlines_def is_linebreak_def)

text \<open>
  Claim C4. The cleaning operation is idempotent: cleaning the result of cleaning a text
  yields the same string as cleaning it once. The operation is applied to the dialogue
  text of a line of a script, which never holds a newline (the one character the bracket
  pattern does not cross); the equality is stated for every string without a newline and
  for the dialogue text of every line of every script.
\<close>

theorem clean_idempotent:
  "(CHR 0x0A \<notin> set s \<longrightarrow> clean (clean s) = clean s)
   \<and> (raw \<in> set (splitlines script_content) \<longrightarrow>
        clean (clean (dialogue_of raw)) = clean (dialogue_of raw))"
  using clean_twice dialogue_no_newline by blast

text \<open>
  An instance with two spaces in a row, a bracketed note and a trailing space.
\<close>

theorem clean_idempotent_witness:
  "CHR 0x0A \<notin> set ''Hi  [whisper] there ''
   \<and> ''Radha: Hi [whisper] there'' \<in> set (splitlines ''Radha: Hi [whisper] there'')
   \<and> clean (clean ''Hi  [whisper] there '') = clean ''Hi  [whisper] there ''
   \<and> clean (clean (dialogue_of ''Radha: Hi [whisper] there'')) = clean (dialogue_of ''Radha: Hi [whisper] there'')"
  using clean_idempotent[of "''Hi  [whisper] there ''" "''Radha: Hi [whisper] there''" "''Radha: Hi [whisper] there''"]
  by (simp add: splitlines_def is_linebreak_def)

text \<open>
  Claim C5, as stated for every line whose dialogue cleans to the empty text: for the line
  \<open>Zed: [sigh]\<close> the registry is consulted before the text is looked at, and the error
  recorded says that the character is not configured, not that no text remains.
\<close>

theorem empty_text_character_unknown:
  "clean (dialogue_of ''Zed: [sigh]'') = []
   \<and> error_summary (process_line demo_env 0 ''Zed: [sigh]'' batch0) =
       [''Line 1: Character '' @ [CHR 0x27] @ ''Zed'' @ [CHR 0x27] @ '' not configured.'']
   \<and> error_summary (process_line demo_env 0 ''Zed: [sigh]'' batch0) \<noteq>
       [''Line 1 (Zed): No dialogue text remaining after removing brackets.'']"
  by (simp add: process_line_cases synthesize_line_def falsy_def line_eval batch0_def)

text \<open>
  Claim C5, amended. For every well-formed line whose dialogue text cleans to the empty
  string, the batch records exactly one recoverable error for that line, generates no
  artifact, never invokes the synthesis provider and continues with the next line; the
  error states that no dialogue text remains when the character is configured, and that
  the character is not configured otherwise.
\<close>

theorem empty_cleaned_text:
  "well_formed raw \<Longrightarrow> clean (dialogue_of raw) = [] \<Longrightarrow>
     process_line env i raw st =
       st\<lparr>line_processed_count := line_processed_count st + 1,
          error_summary := error_summary st @
            [if CHARACTER_VOICES (character_of raw) = None
             then ''Line '' @ str_nat (i + 1) @ '': Character '' @ [CHR 0x27] @ character_of raw
                    @ [CHR 0x27] @ '' not configured.''
             else ''Line '' @ str_nat (i + 1) @ '' ('' @ character_of raw @ ''): ''
                    @ ''No dialogue text remaining after removing brackets.'']\<rparr>
     \<and> artifacts (process_line env i raw st) = artifacts st
     \<and> audio_files_generated_count (process_line env i raw st) = audio_files_generated_count st
     \<and> provider_calls (process_line env i raw st) = provider_calls st
     \<and> process_lines env i (raw # rest) st =
         process_lines env (Suc i) rest (process_line env i raw st)"
proof (cases "CHARACTER_VOICES (character_of raw)")
  case None
  assume "well_formed raw"
  then show ?thesis using None by (simp add: line_not_configured)
next
  case (Some v)
  assume "well_formed raw" and "clean (dialogue_of raw) = []"
  then show ?thesis using Some by (simp add: line_empty_text)
qed

text \<open>
  The line \<open>Krishna: [sigh]\<close>, followed by a line that is synthesized as the second
  processed line.
\<close>

theorem empty_cleaned_text_witness:
  "well_formed ''Krishna: [sigh]'' \<and> clean (dialogue_of ''Krishna: [sigh]'') = []
   \<and> process_lines demo_env 0 [''Krishna: [sigh]'', ''Radha: Hi''] batch0 =
       batch0\<lparr>line_processed_count := 2,
          error_summary :=
            [''Line 1 (Krishna): No dialogue text remaining after removing brackets.''],
          provider_calls := [(''text-to-speech-en-in-wavenet-d'', ''Hi'', ''voice_overs/002_Radha.mp3'')],
          audio_files_generated_count := 1,
          output_html := ''<p><strong>Radha:</strong> Hi</p><audio controls src=''
            @ [CHR 0x27] @ ''file=voice_overs/002_Radha.mp3'' @ [CHR 0x27] @ ''></audio><br><br>'',
          artifacts := [''voice_overs/002_Radha.mp3'']\<rparr>"
proof -
  have wf: "well_formed ''Krishna: [sigh]''"
    and em: "clean (dialogue_of ''Krishna: [sigh]'') = []"
    by (simp_all add: line_eval)
  have next_line: "process_line demo_env 1 ''Radha: Hi''
      (batch0\<lparr>line_processed_count := 1,
          error_summary :=
            [''Line 1 (Krishna): No dialogue text remaining after removing brackets.'']\<rparr>) =
       batch0\<lparr>line_processed_count := 2,
          error_summary :=
            [''Line 1 (Krishna): No dialogue text remaining after removing brackets.''],
          provider_calls := [(''text-to-speech-en-in-wavenet-d'', ''Hi'', ''voice_overs/002_Radha.mp3'')],
          audio_files_generated_count := 1,
          output_html := ''<p><strong>Radha:</strong> Hi</p><audio controls src=''
            @ [CHR 0x27] @ ''file=voice_overs/002_Radha.mp3'' @ [CHR 0x27] @ ''></audio><br><br>'',
          artifacts := [''voice_overs/002_Radha.mp3'']\<rparr>"
    by (simp add: batch_eval line_eval)
  show ?thesis
    using wf em empty_cleaned_text[OF wf em, of demo_env 0 batch0 "[''Radha: Hi'']"] next_line
    by (simp add: line_eval batch0_def)
qed

text \<open>
  Claim C6. For every well-formed line whose character name is not a key of the voice
  registry (the lookup is an exact comparison of strings), exactly one error entry is
  recorded, holding the character name and the words \<open>not configured\<close>; no artifact is
  generated, no provider call is made, and the batch continues with the lines that
  follow.
\<close>

theorem unconfigured_character:
  "well_formed raw \<Longrightarrow> CHARACTER_VOICES (character_of raw) = None \<Longrightarrow>
     process_line env i raw st =
       st\<lparr>line_processed_count := line_processed_count st + 1,
          error_summary := error_summary st @
            [''Line '' @ str_nat (i + 1) @ '': Character '' @ [CHR 0x27] @ character_of raw
               @ [CHR 0x27] @ '' not configured.'']\<rparr>
     \<and> artifacts (process_line env i raw st) = artifacts st
     \<and> audio_files_generated_count (process_line env i raw st) = audio_files_generated_count st
     \<and> provider_calls (process_line env i raw st) = provider_calls st
     \<and> process_lines env i (raw # rest) st =
         process_lines env (Suc i) rest
           (st\<lparr>line_processed_count := line_processed_count st + 1,
               error_summary := error_summary st @
                 [''Line '' @ str_nat (i + 1) @ '': Character '' @ [CHR 0x27] @ character_of raw
                    @ [CHR 0x27] @ '' not configured.'']\<rparr>)"
  by (simp add: line_not_configured)

text \<open>
  The line \<open>Zed: hello\<close>.
\<close>

theorem unconfigured_character_witness:
  "well_formed ''Zed: hello'' \<and> CHARACTER_VOICES (character_of ''Zed: hello'') = None
   \<and> error_summary (process_line demo_env 0 ''Zed: hello'' batch0) =
       [''Line 1: Character '' @ [CHR 0x27] @ ''Zed'' @ [CHR 0x27] @ '' not configured.'']
   \<and> artifacts (process_line demo_env 0 ''Zed: hello'' batch0) = []
   \<and> provider_calls (process_line demo_env 0 ''Zed: hello'' batch0) = []"
proof -
  have wf: "well_formed ''Zed: hello''" by (simp add: line_eval)
  have nc: "CHARACTER_VOICES (character_of ''Zed: hello'') = None" by (simp add: line_eval)
  show ?thesis
    using wf nc unconfigured_character[OF wf nc, of demo_env 0 batch0 "[]"]
    by (simp add: line_eval batch0_def)
qed

text \<open>
  Claim C7. If no file is given, or the name of the file does not end in \<open>.txt\<close>
  (whatever the case of its letters), or the initialisation of the provider fails, as it
  does when \<open>GCP_PROJECT_ID\<close> is absent from the environment, then the batch returns one
  message, an empty result and a hidden clear button, with nothing processed, generated,
  recorded as an error, called or written; the content of the file plays no part in the
  result.
\<close>

theorem fatal_errors_stop_batch:
  "(script_file_obj = None
      \<or> (\<exists>f. script_file_obj = Some f \<and> \<not> endswith (str_lower (name f)) ''.txt'')
      \<or> (\<exists>e. initialize_vertex_ai env = Inl e)
    \<longrightarrow>
      (\<exists>message. generate_voice_over env script_file_obj = ((message, [], False), batch0))
      \<and> generate_voice_over env (map_option (\<lambda>f. f\<lparr>read_decode := other\<rparr>) script_file_obj) =
          generate_voice_over env script_file_obj)
   \<and> generate_voice_over env None = ((''Please upload a script file.'', [], False), batch0)
   \<and> (\<not> endswith (str_lower (name f)) ''.txt'' \<longrightarrow>
        generate_voice_over env (Some f) =
          ((''Invalid File Type: Please upload a .txt file.'', [], False), batch0))
   \<and> (endswith (str_lower (name f)) ''.txt'' \<and> initialize_vertex_ai env = Inl e \<longrightarrow>
        generate_voice_over env (Some f) = ((e, [], False), batch0))
   \<and> (GCP_PROJECT_ID env = None \<longrightarrow>
        initialize_vertex_ai env = Inl ''Configuration Error: GCP_PROJECT_ID environment variable is not set. Please set it in the Cloud Run deployment settings.'')
   \<and> line_processed_count batch0 = 0 \<and> audio_files_generated_count batch0 = 0
   \<and> error_summary batch0 = [] \<and> provider_calls batch0 = [] \<and> artifacts batch0 = []"
proof -
  have stop: "(\<exists>message. generate_voice_over env script_file_obj = ((message, [], False), batch0))
      \<and> generate_voice_over env (map_option (\<lambda>f. f\<lparr>read_decode := other\<rparr>) script_file_obj) =
          generate_voice_over env script_file_obj"
    if "script_file_obj = None
      \<or> (\<exists>f. script_file_obj = Some f \<and> \<not> endswith (str_lower (name f)) ''.txt'')
      \<or> (\<exists>e. initialize_vertex_ai env = Inl e)"
    using that
    by (auto simp: generate_voice_over_def split: option.splits sum.splits)
  show ?thesis
    using stop
    by (simp add: fatal_no_file fatal_extension fatal_init init_no_project batch0_def)
qed

text \<open>
  An accepted file in an environment without project identifier, and a file with the
  wrong extension.
\<close>

theorem fatal_errors_stop_batch_witness:
  "GCP_PROJECT_ID (demo_env\<lparr>GCP_PROJECT_ID := None\<rparr>) = None
   \<and> endswith (str_lower (name \<lparr>name = ''Script.TXT'', read_decode = Inr ''Krishna: Hello''\<rparr>)) ''.txt''
   \<and> \<not> endswith (str_lower (name \<lparr>name = ''script.pdf'', read_decode = Inr ''Krishna: Hello''\<rparr>)) ''.txt''
   \<and> generate_voice_over (demo_env\<lparr>GCP_PROJECT_ID := None\<rparr>)
        (Some \<lparr>name = ''Script.TXT'', read_decode = Inr ''Krishna: Hello''\<rparr>) =
       ((''Configuration Error: GCP_PROJECT_ID environment variable is not set. Please set it in the Cloud Run deployment settings.'',
         [], False), batch0)
   \<and> generate_voice_over demo_env
        (Some \<lparr>name = ''script.pdf'', read_decode = Inr ''Krishna: Hello''\<rparr>) =
       ((''Invalid File Type: Please upload a .txt file.'', [], False), batch0)
   \<and> generate_voice_over (demo_env\<lparr>GCP_PROJECT_ID := None\<rparr>)
        (map_option (\<lambda>f. f\<lparr>read_decode := Inl ''unreadable''\<rparr>)
           (Some \<lparr>name = ''Script.TXT'', read_decode = Inr ''Krishna: Hello''\<rparr>)) =
       generate_voice_over (demo_env\<lparr>GCP_PROJECT_ID := None\<rparr>)
        (Some \<lparr>name = ''Script.TXT'', read_decode = Inr ''Krishna: Hello''\<rparr>)"
proof -
  let ?env = "demo_env\<lparr>GCP_PROJECT_ID := None\<rparr>"
  let ?f = "\<lparr>name = ''Script.TXT'', read_decode = Inr ''Krishna: Hello''\<rparr>"
  let ?g = "\<lparr>name = ''script.pdf'', read_decode = Inr ''Krishna: Hello''\<rparr>"
  have np: "GCP_PROJECT_ID ?env = None" by simp
  have "endswith (str_lower ''Script.TXT'') ''.txt''" by code_simp
  then have ext: "endswith (str_lower (name ?f)) ''.txt''" by simp
  have "\<not> endswith (str_lower ''script.pdf'') ''.txt''" by code_simp
  then have bad: "\<not> endswith (str_lower (name ?g)) ''.txt''" by simp
  note inst = fatal_errors_stop_batch[of "Some ?f" ?env "Inl ''unreadable''" ?f
      "''Configuration Error: GCP_PROJECT_ID environment variable is not set. Please set it in the Cloud Run deployment settings.''"]
  from inst np
  have same: "generate_voice_over ?env
        (map_option (\<lambda>f. f\<lparr>read_decode := Inl ''unreadable''\<rparr>) (Some ?f)) =
       generate_voice_over ?env (Some ?f)"
    by blast
  from inst np ext
  have one: "generate_voice_over ?env (Some ?f) =
       ((''Configuration Error: GCP_PROJECT_ID environment variable is not set. Please set it in the Cloud Run deployment settings.'',
         [], False), batch0)"
    by blast
  from fatal_errors_stop_batch[of "Some ?g" demo_env "Inr []" ?g "[]"] bad
  have two: "generate_voice_over demo_env (Some ?g) =
       ((''Invalid File Type: Please upload a .txt file.'', [], False), batch0)"
    by blast
  from np ext bad one two same show ?thesis by blast
qed

text \<open>
  Claim C8. For every line on which the provider call raises an exception, the loop goes
  on: exactly one error entry is recorded for that line, tagged with its line number and
  character name and carrying the text of the exception; no artifact is added or counted;
  the remaining lines are processed from the resulting state, each non-blank one being
  counted.
\<close>

theorem provider_failure_isolated:
  "well_formed raw \<Longrightarrow> CHARACTER_VOICES (character_of raw) = Some v \<Longrightarrow>
   clean (dialogue_of raw) \<noteq> [] \<Longrightarrow>
   provider env i v (clean (dialogue_of raw))
     (OUTPUT_DIR env @ ''/'' @ artifact_name (line_processed_count st + 1) (character_of raw))
     = Some e \<Longrightarrow>
     process_line env i raw st =
       st\<lparr>line_processed_count := line_processed_count st + 1,
          provider_calls := provider_calls st @
            [(v, clean (dialogue_of raw),
              OUTPUT_DIR env @ ''/'' @ artifact_name (line_processed_count st + 1) (character_of raw))],
          error_summary := error_summary st @
            [''Line '' @ str_nat (i + 1) @ '' ('' @ character_of raw @ ''): ''
               @ ''API Error for '' @ [CHR 0x27] @ character_of raw @ [CHR 0x27] @ '': '' @ e]\<rparr>
     \<and> artifacts (process_line env i raw st) = artifacts st
     \<and> audio_files_generated_count (process_line env i raw st) = audio_files_generated_count st
     \<and> process_lines env i (raw # rest) st =
         process_lines env (Suc i) rest (process_line env i raw st)
     \<and> line_processed_count (process_lines env i (raw # rest) st) =
         line_processed_count st + 1 + length (filter nonblank rest)"
  by (simp add: line_provider_error process_lines_count)

text \<open>
  A provider that fails on the first line only: the second line is synthesized as the
  second processed line.
\<close>

theorem provider_failure_isolated_witness:
  "well_formed ''Krishna: Hello''
   \<and> CHARACTER_VOICES (character_of ''Krishna: Hello'') = Some ''text-to-speech-en-in-standard-c''
   \<and> clean (dialogue_of ''Krishna: Hello'') \<noteq> []
   \<and> provider flaky_env 0 ''text-to-speech-en-in-standard-c'' (clean (dialogue_of ''Krishna: Hello''))
        (OUTPUT_DIR flaky_env @ ''/'' @ artifact_name (line_processed_count batch0 + 1)
           (character_of ''Krishna: Hello'')) = Some ''quota exceeded''
   \<and> process_lines flaky_env 0 [''Krishna: Hello'', ''Radha: Hi''] batch0 =
       batch0\<lparr>line_processed_count := 2,
          error_summary :=
            [''Line 1 (Krishna): API Error for '' @ [CHR 0x27] @ ''Krishna'' @ [CHR 0x27]
               @ '': quota exceeded''],
          provider_calls :=
            [(''text-to-speech-en-in-standard-c'', ''Hello'', ''voice_overs/001_Krishna.mp3''),
             (''text-to-speech-en-in-wavenet-d'', ''Hi'', ''voice_overs/002_Radha.mp3'')],
          audio_files_generated_count := 1,
          output_html := ''<p><strong>Radha:</strong> Hi</p><audio controls src=''
            @ [CHR 0x27] @ ''file=voice_overs/002_Radha.mp3'' @ [CHR 0x27] @ ''></audio><br><br>'',
          artifacts := [''voice_overs/002_Radha.mp3'']\<rparr>"
proof -
  have wf: "well_formed ''Krishna: Hello''"
    and cf: "CHARACTER_VOICES (character_of ''Krishna: Hello'') = Some ''text-to-speech-en-in-standard-c''"
    and ne: "clean (dialogue_of ''Krishna: Hello'') \<noteq> []"
    and pf: "provider flaky_env 0 ''text-to-speech-en-in-standard-c'' (clean (dialogue_of ''Krishna: Hello''))
        (OUTPUT_DIR flaky_env @ ''/'' @ artifact_name (line_processed_count batch0 + 1)
           (character_of ''Krishna: Hello'')) = Some ''quota exceeded''"
    by (simp_all add: line_eval flaky_env_def)
  have next_line: "process_line flaky_env 1 ''Radha: Hi''
      (batch0\<lparr>line_processed_count := 1,
          provider_calls :=
            [(''text-to-speech-en-in-standard-c'', ''Hello'', ''voice_overs/001_Krishna.mp3'')],
          error_summary :=
            [''Line 1 (Krishna): API Error for '' @ [CHR 0x27] @ ''Krishna'' @ [CHR 0x27]
               @ '': quota exceeded'']\<rparr>) =
       batch0\<lparr>line_processed_count := 2,
          error_summary :=
            [''Line 1 (Krishna): API Error for '' @ [CHR 0x27] @ ''Krishna'' @ [CHR 0x27]
               @ '': quota exceeded''],
          provider_calls :=
            [(''text-to-speech-en-in-standard-c'', ''Hello'', ''voice_overs/001_Krishna.mp3''),
             (''text-to-speech-en-in-wavenet-d'', ''Hi'', ''voice_overs/002_Radha.mp3'')],
          audio_files_generated_count := 1,
          output_html := ''<p><strong>Radha:</strong> Hi</p><audio controls src=''
            @ [CHR 0x27] @ ''file=voice_overs/002_Radha.mp3'' @ [CHR 0x27] @ ''></audio><br><br>'',
          artifacts := [''voice_overs/002_Radha.mp3'']\<rparr>"
    by (simp add: batch_eval line_eval flaky_env_def)
  show ?thesis
    using wf cf ne pf
      provider_failure_isolated[OF wf cf ne pf, of "[''Radha: Hi'']"] next_line
    by (simp add: line_eval batch0_def flaky_env_def OUTPUT_DIR_def artifact_name_def fmt03d_digit)
qed

text \<open>
  Claim C9, as stated for a directory that does not exist: the report is that the
  directory does not exist, not a count of zero deletions.
\<close>

theorem clear_missing_directory:
  "fst (clear_generated_files demo_env \<lparr>listing = None, remove = (\<lambda>_. None)\<rparr>) =
     (''Directory does not exist.'', [], False)
   \<and> fst (clear_generated_files demo_env \<lparr>listing = None, remove = (\<lambda>_. None)\<rparr>) \<noteq>
     (''Cleared 0 files.'', [], False)"
  by (simp add: clear_generated_files_def)

text \<open>
  Claim C9, amended. Clearing never raises. On a directory that does not exist it
  removes nothing and reports that the directory does not exist; on an empty directory it
  reports zero deletions. On an existing directory it tries to remove every entry of the
  listing, in order, counts the removals that succeed and reports that count; a removal
  that fails is printed and the sweep goes on with the remaining entries.
\<close>

theorem clear_generated_files_sweep:
  "(listing d = None \<longrightarrow>
      clear_generated_files env d =
        ((''Directory does not exist.'', [], False),
         \<lparr>deleted_count = 0, attempted = [], printed = []\<rparr>))
   \<and> (listing d = Some [] \<longrightarrow>
      clear_generated_files env d =
        ((''Cleared 0 files.'', [], False), \<lparr>deleted_count = 0, attempted = [], printed = []\<rparr>))
   \<and> (listing d = Some files \<longrightarrow>
      fst (clear_generated_files env d) =
        (''Cleared '' @ str_nat (deleted_count (snd (clear_generated_files env d))) @ '' files.'',
         [], False)
      \<and> attempted (snd (clear_generated_files env d)) = map (path_join (OUTPUT_DIR env)) files
      \<and> deleted_count (snd (clear_generated_files env d)) =
          length (filter (\<lambda>f. remove d (path_join (OUTPUT_DIR env) f) = None) files)
      \<and> printed (snd (clear_generated_files env d)) =
          map (\<lambda>f. ''Error deleting file '' @ f @ '': ''
                 @ the (remove d (path_join (OUTPUT_DIR env) f)))
            (filter (\<lambda>f. remove d (path_join (OUTPUT_DIR env) f) \<noteq> None) files))"
  by (simp add: clear_generated_files_def Let_def remove_all_effect str_nat_digit)

text \<open>
  A missing directory, an empty one, and one with three entries of which the second
  cannot be removed.
\<close>

theorem clear_generated_files_sweep_witness:
  "listing \<lparr>listing = None, remove = (\<lambda>_. None)\<rparr> = None
   \<and> listing \<lparr>listing = Some [], remove = (\<lambda>_. None)\<rparr> = Some []
   \<and> listing \<lparr>listing = Some [''001_Krishna.mp3'', ''locked'', ''003_Radha.mp3''],
        remove = (\<lambda>p. if p = ''voice_overs/locked'' then Some ''Permission denied'' else None)\<rparr>
       = Some [''001_Krishna.mp3'', ''locked'', ''003_Radha.mp3'']
   \<and> clear_generated_files demo_env \<lparr>listing = None, remove = (\<lambda>_. None)\<rparr> =
       ((''Directory does not exist.'', [], False),
        \<lparr>deleted_count = 0, attempted = [], printed = []\<rparr>)
   \<and> clear_generated_files demo_env \<lparr>listing = Some [], remove = (\<lambda>_. None)\<rparr> =
       ((''Cleared 0 files.'', [], False), \<lparr>deleted_count = 0, attempted = [], printed = []\<rparr>)
   \<and> attempted (snd (clear_generated_files demo_env
        \<lparr>listing = Some [''001_Krishna.mp3'', ''locked'', ''003_Radha.mp3''],
         remove = (\<lambda>p. if p = ''voice_overs/locked'' then Some ''Permission denied'' else None)\<rparr>)) =
       [''voice_overs/001_Krishna.mp3'', ''voice_overs/locked'', ''voice_overs/003_Radha.mp3'']
   \<and> deleted_count (snd (clear_generated_files demo_env
        \<lparr>listing = Some [''001_Krishna.mp3'', ''locked'', ''003_Radha.mp3''],
         remove = (\<lambda>p. if p = ''voice_overs/locked'' then Some ''Permission denied'' else None)\<rparr>)) = 2
   \<and> printed (snd (clear_generated_files demo_env
        \<lparr>listing = Some [''001_Krishna.mp3'', ''locked'', ''003_Radha.mp3''],
         remove = (\<lambda>p. if p = ''voice_overs/locked'' then Some ''Permission denied'' else None)\<rparr>)) =
       [''Error deleting file locked: Permission denied'']"
  using clear_generated_files_sweep[of "\<lparr>listing = None, remove = (\<lambda>_. None)\<rparr>" demo_env "[]"]
    clear_generated_files_sweep[of "\<lparr>listing = Some [], remove = (\<lambda>_. None)\<rparr>" demo_env "[]"]
    clear_generated_files_sweep[of "\<lparr>listing = Some [''001_Krishna.mp3'', ''locked'', ''003_Radha.mp3''],
         remove = (\<lambda>p. if p = ''voice_overs/locked'' then Some ''Permission denied'' else None)\<rparr>"
       demo_env "[''001_Krishna.mp3'', ''locked'', ''003_Radha.mp3'']"]
  by (simp add: path_join_def OUTPUT_DIR_def demo_env_def)

text \<open>
  Claim C10. Every processed (non-blank) line has exactly one outcome: either the
  generated count and the artifacts grow by one and no error is recorded, or one error
  entry is recorded and nothing is generated. So for every script the generated count
  plus the number of error entries equals the processed-line count, and this holds for
  the state returned by \<open>generate_voice_over\<close> in every case, where also the number of
  artifacts equals the generated count.
\<close>

theorem one_outcome_per_line:
  "(nonblank raw \<longrightarrow>
      line_processed_count (process_line env i raw st) = line_processed_count st + 1
      \<and> ((audio_files_generated_count (process_line env i raw st) =
             audio_files_generated_count st + 1
           \<and> (\<exists>f. artifacts (process_line env i raw st) = artifacts st @ [f])
           \<and> error_summary (process_line env i raw st) = error_summary st)
         \<or> (audio_files_generated_count (process_line env i raw st) =
               audio_files_generated_count st
           \<and> artifacts (process_line env i raw st) = artifacts st
           \<and> (\<exists>e. error_summary (process_line env i raw st) = error_summary st @ [e]))))
   \<and> audio_files_generated_count (process_lines env 0 (splitlines script_content) batch0)
       + length (error_summary (process_lines env 0 (splitlines script_content) batch0))
       = line_processed_count (process_lines env 0 (splitlines script_content) batch0)
   \<and> balanced (snd (generate_voice_over env f))"
proof (intro conjI impI)
  assume nb: "nonblank raw"
  from process_line_outcome[OF nb, of env i st]
  show "line_processed_count (process_line env i raw st) = line_processed_count st + 1"
    and "(audio_files_generated_count (process_line env i raw st) =
             audio_files_generated_count st + 1
           \<and> (\<exists>f. artifacts (process_line env i raw st) = artifacts st @ [f])
           \<and> error_summary (process_line env i raw st) = error_summary st)
         \<or> (audio_files_generated_count (process_line env i raw st) =
               audio_files_generated_count st
           \<and> artifacts (process_line env i raw st) = artifacts st
           \<and> (\<exists>e. error_summary (process_line env i raw st) = error_summary st @ [e]))"
    by blast+
next
  show "audio_files_generated_count (process_lines env 0 (splitlines script_content) batch0)
       + length (error_summary (process_lines env 0 (splitlines script_content) batch0))
       = line_processed_count (process_lines env 0 (splitlines script_content) batch0)"
    using process_lines_balanced[OF balanced_batch0, of env 0 "splitlines script_content"]
    by (simp add: balanced_def)
next
  show "balanced (snd (generate_voice_over env f))"
    by (rule generate_voice_over_balanced)
qed

text \<open>
  The line \<open>Zed: hello\<close>: one line processed, no file, one error.
\<close>

theorem one_outcome_per_line_witness:
  "nonblank ''Zed: hello''
   \<and> line_processed_count (process_line demo_env 0 ''Zed: hello'' batch0) = 1
   \<and> audio_files_generated_count (process_line demo_env 0 ''Zed: hello'' batch0) = 0
   \<and> length (error_summary (process_line demo_env 0 ''Zed: hello'' batch0)) = 1"
proof -
  have nb: "nonblank ''Zed: hello''" by (simp add: line_eval)
  have "error_summary (process_line demo_env 0 ''Zed: hello'' batch0) \<noteq> error_summary batch0"
    by (simp add: batch_eval line_eval)
  with nb one_outcome_per_line[of "''Zed: hello''" demo_env 0 batch0 "[]" None]
  show ?thesis by (auto simp: batch0_def)
qed

end
